theory Spec2Isabelle
  imports Main
begin

section \<open>Shared vocabulary\<close>

text \<open>
  The exceptions raised by the services and builders, as values. A function that can
  raise returns \<open>error + 'a\<close>, with \<open>Inl\<close> for the exception.
\<close>

datatype error =
    PluginParameterTypeAlreadyExistsError
  | PluginParameterTypeDoesNotExistError
  | SearchNotImplementedError
  | BackendDatabaseError
  | GroupDoesNotExistError
  | UserPasswordVerificationError
  | UserPasswordExpiredError
  | UserPasswordChangeError
  | UserPasswordChangeSamePasswordError
  | KeyError int
  | AttributeError
  | TypeError "string list"
  | OverflowError

text \<open>
  A Python \<open>dict\<close> keeps its keys in insertion order; assigning to an existing key
  replaces the value where it stands, assigning to a new key appends.
\<close>

fun dict_set :: "('k \<times> 'v) list \<Rightarrow> 'k \<Rightarrow> 'v \<Rightarrow> ('k \<times> 'v) list" where
  "dict_set [] k v = [(k, v)]"
| "dict_set ((k', v') # d) k v = (if k' = k then (k, v) # d else (k', v') # dict_set d k v)"

fun dict_get :: "('k \<times> 'v) list \<Rightarrow> 'k \<Rightarrow> 'v option" where
  "dict_get [] k = None"
| "dict_get ((k', v') # d) k = (if k' = k then Some v' else dict_get d k)"

definition dict_values :: "('k \<times> 'v) list \<Rightarrow> 'v list" where
  "dict_values d = map snd d"

section \<open>URLs and the paging envelope (restapi/v1/utils.py)\<close>

text \<open>
  A query parameter value is an integer (index, pageLength, groupId) or a string (search,
  draft_type). A URL is kept as the two parts \<open>build_url\<close> hands to the standard
  library's \<open>urlunparse\<close> and \<open>urlencode\<close>: the path and the ordered query parameters.
\<close>

datatype qval = QInt int | QStr string

record url =
  url_path :: string
  url_query :: "(string \<times> qval) list"

text \<open>
  \<open>build_url(route_prefix, query_params=None)\<close>. The constant \<open>V1_ROOT\<close> comes from
  \<open>dioptra.restapi.routes\<close>; it is the parameter \<open>root\<close> here.
\<close>

definition build_url :: "string \<Rightarrow> string \<Rightarrow> (string \<times> qval) list option \<Rightarrow> url" where
  "build_url root route_prefix query_params =
     (let qp = (case query_params of None \<Rightarrow> [] | Some q \<Rightarrow> (if q = [] then [] else q))
      in \<lparr>url_path = ''/'' @ root @ ''/'' @ route_prefix, url_query = qp\<rparr>)"

text \<open>Python truthiness of \<open>int | None\<close> and \<open>str | None\<close>.\<close>

definition truthy_int :: "int option \<Rightarrow> bool" where
  "truthy_int g = (case g of None \<Rightarrow> False | Some n \<Rightarrow> n \<noteq> 0)"

definition truthy_str :: "string option \<Rightarrow> bool" where
  "truthy_str s = (case s of None \<Rightarrow> False | Some t \<Rightarrow> t \<noteq> [])"

definition build_paging_url ::
  "string \<Rightarrow> string \<Rightarrow> int option \<Rightarrow> string option \<Rightarrow> string option \<Rightarrow> int \<Rightarrow> int \<Rightarrow> url" where
  "build_paging_url root route_prefix group_id search draft_type index len =
     (let query_params = [(''index'', QInt index), (''pageLength'', QInt len)];
          query_params = (if truthy_int group_id
                          then dict_set query_params ''groupId'' (QInt (the group_id))
                          else query_params);
          query_params = (if truthy_str search
                          then dict_set query_params ''search'' (QStr (the search))
                          else query_params);
          query_params = (if truthy_str draft_type
                          then dict_set query_params ''draft_type'' (QStr (the draft_type))
                          else query_params)
      in build_url root route_prefix (Some query_params))"

record 'a paging_envelope =
  env_index :: int
  env_is_complete :: bool
  env_total_num_results :: int
  env_first :: url
  env_data :: "'a list"
  env_prev :: "url option"
  env_next :: "url option"

definition build_paging_envelope ::
  "string \<Rightarrow> string \<Rightarrow> ('r \<Rightarrow> 'a) \<Rightarrow> 'r list \<Rightarrow> int option \<Rightarrow> string option \<Rightarrow> string option
     \<Rightarrow> int \<Rightarrow> int \<Rightarrow> int \<Rightarrow> 'a paging_envelope" where
  "build_paging_envelope root route_prefix build_fn data group_id query draft_type
       index len total_num_elements =
     (let has_prev = (index > 0);
          has_next = (total_num_elements > index + len);
          is_complete = (\<not> has_next);
          paged_data = \<lparr>env_index = index,
                        env_is_complete = is_complete,
                        env_total_num_results = total_num_elements,
                        env_first = build_paging_url root route_prefix group_id query
                                      draft_type 0 len,
                        env_data = map build_fn data,
                        env_prev = None,
                        env_next = None\<rparr>;
          paged_data = (if has_prev
                        then paged_data\<lparr>env_prev :=
                               Some (build_paging_url root route_prefix group_id query
                                       draft_type (max (index - len) 0) len)\<rparr>
                        else paged_data);
          paged_data = (if has_next
                        then paged_data\<lparr>env_next :=
                               Some (build_paging_url root route_prefix group_id query
                                       draft_type (index + len) len)\<rparr>
                        else paged_data)
      in paged_data)"

section \<open>The resource store behind the services (dioptra.restapi.db)\<close>

text \<open>
  The services of \<open>restapi/v1/plugin_parameter_types/service.py\<close> query and extend three
  tables through the ORM session: resources, the snapshots of plugin parameter types, and
  resource locks. A row is a record; a table is the list of its rows in insertion order;
  the store is the session's view of the tables. \<open>commit\<close> makes that view durable and
  changes nothing in it, so the flag \<open>commit\<close> and the logger are left out.
\<close>

datatype json =
    JNull | JBool bool | JInt int | JStr string | JArr "json list" | JObj "(string \<times> json) list"

record resource_row =
  resource_id :: int
  resource_type :: string
  group_id :: int

record snapshot_row =
  ppt_resource_snapshot_id :: int
  ppt_resource_id :: int
  ppt_name :: string
  ppt_structure :: json
  ppt_description :: string
  ppt_creator :: int

record lock_row =
  lock_resource_id :: int
  resource_lock_type :: string

record store =
  groups :: "int list"
  resources :: "resource_row list"
  snapshots :: "snapshot_row list"
  locks :: "lock_row list"

definition RESOURCE_TYPE :: string where
  "RESOURCE_TYPE = ''plugin_task_parameter_type''"

fun max_id :: "int list \<Rightarrow> int option" where
  "max_id [] = None"
| "max_id (x # xs) = (case max_id xs of None \<Rightarrow> Some x | Some m \<Rightarrow> Some (max x m))"

text \<open>
  Modelled from the spec: the ORM classes \<open>Resource\<close>, \<open>ResourceLock\<close> and
  \<open>PluginTaskParameterType\<close> of \<open>dioptra.restapi.db.models\<close> are not among the sources.
  The spec's data model gives the two derived columns of a resource: a resource is deleted
  exactly when a lock of kind "delete" is recorded for it, and \<open>latest_snapshot_id\<close> points
  to the resource's newest snapshot, snapshot ids increasing with every insert.
\<close>

definition is_deleted :: "store \<Rightarrow> resource_row \<Rightarrow> bool" where
  "is_deleted s r =
     list_ex (\<lambda>l. lock_resource_id l = resource_id r \<and> resource_lock_type l = ''delete'')
       (locks s)"

definition latest_snapshot_id :: "store \<Rightarrow> resource_row \<Rightarrow> int option" where
  "latest_snapshot_id s r =
     max_id (map ppt_resource_snapshot_id
               (filter (\<lambda>p. ppt_resource_id p = resource_id r) (snapshots s)))"

text \<open>
  Modelled from the spec: the primary keys the database assigns on insert (the table
  definitions are not among the sources). A new row gets an id above every id in its table.
\<close>

definition next_snapshot_id :: "store \<Rightarrow> int" where
  "next_snapshot_id s =
     (case max_id (map ppt_resource_snapshot_id (snapshots s)) of None \<Rightarrow> 1 | Some m \<Rightarrow> m + 1)"

definition next_resource_id :: "store \<Rightarrow> int" where
  "next_resource_id s =
     (case max_id (map resource_id (resources s)) of None \<Rightarrow> 1 | Some m \<Rightarrow> m + 1)"

text \<open>
  \<open>select(PluginTaskParameterType).join(Resource).where(cond)\<close>: the snapshot of every
  pair of a snapshot row and a resource row with the same resource id that satisfies the
  condition. \<open>first\<close> is \<open>scalars(stmt).first()\<close>. The relationship \<open>snapshot.resource\<close>
  is the resource row the snapshot's foreign key names.
\<close>

definition select_join :: "store \<Rightarrow> (snapshot_row \<Rightarrow> resource_row \<Rightarrow> bool) \<Rightarrow> snapshot_row list" where
  "select_join s cond =
     [p. p \<leftarrow> snapshots s, r \<leftarrow> resources s, ppt_resource_id p = resource_id r \<and> cond p r]"

definition first :: "'a list \<Rightarrow> 'a option" where
  "first xs = (case xs of [] \<Rightarrow> None | x # _ \<Rightarrow> Some x)"

definition resource_of :: "store \<Rightarrow> snapshot_row \<Rightarrow> resource_row option" where
  "resource_of s p = first (filter (\<lambda>r. resource_id r = ppt_resource_id p) (resources s))"

text \<open>
  Modelled from the spec: \<open>GroupIdService.get\<close> (\<open>restapi/v1/groups/service.py\<close>) is not
  among the sources; like every \<open>get\<close> by id of the spec it returns the group when it
  exists and fails with its does-not-exist error otherwise.
\<close>

definition GroupIdService_get :: "store \<Rightarrow> int \<Rightarrow> bool \<Rightarrow> error + int option" where
  "GroupIdService_get s gid error_if_not_found =
     (if gid \<in> set (groups s) then Inr (Some gid)
      else if error_if_not_found then Inl GroupDoesNotExistError
      else Inr None)"

section \<open>Plugin parameter type services (restapi/v1/plugin_parameter_types/service.py)\<close>

definition PluginParameterTypeNameService_get ::
  "store \<Rightarrow> string \<Rightarrow> int \<Rightarrow> bool \<Rightarrow> error + snapshot_row option" where
  "PluginParameterTypeNameService_get s name gid error_if_not_found =
     (case first (select_join s (\<lambda>p r.
                    ppt_name p = name
                    \<and> group_id r = gid
                    \<and> \<not> is_deleted s r
                    \<and> latest_snapshot_id s r = Some (ppt_resource_snapshot_id p))) of
        None \<Rightarrow> (if error_if_not_found then Inl PluginParameterTypeDoesNotExistError
                 else Inr None)
      | Some plugin_parameter_type \<Rightarrow> Inr (Some plugin_parameter_type))"

definition PluginParameterTypeIdService_get ::
  "store \<Rightarrow> int \<Rightarrow> bool \<Rightarrow> error + snapshot_row option" where
  "PluginParameterTypeIdService_get s plugin_parameter_type_id error_if_not_found =
     (case first (select_join s (\<lambda>p r.
                    ppt_resource_id p = plugin_parameter_type_id
                    \<and> Some (ppt_resource_snapshot_id p) = latest_snapshot_id s r
                    \<and> \<not> is_deleted s r)) of
        None \<Rightarrow> (if error_if_not_found then Inl PluginParameterTypeDoesNotExistError
                 else Inr None)
      | Some plugin_parameter_type \<Rightarrow> Inr (Some plugin_parameter_type))"

text \<open>
  The mutating methods return the outcome together with the store after the call, so
  that what an exception leaves behind is part of the result. \<open>current_user\<close> is the id
  of the logged-in user.
\<close>

definition PluginParameterTypeService_create ::
  "store \<Rightarrow> int \<Rightarrow> string \<Rightarrow> json \<Rightarrow> string \<Rightarrow> int \<Rightarrow> (error + snapshot_row) \<times> store" where
  "PluginParameterTypeService_create s current_user name structure description gid =
     (case PluginParameterTypeNameService_get s name gid False of
        Inl e \<Rightarrow> (Inl e, s)
      | Inr (Some _) \<Rightarrow> (Inl PluginParameterTypeAlreadyExistsError, s)
      | Inr None \<Rightarrow>
          (case GroupIdService_get s gid True of
             Inl e \<Rightarrow> (Inl e, s)
           | Inr None \<Rightarrow> (Inl AttributeError, s)
           | Inr (Some owner) \<Rightarrow>
               (let resource = \<lparr>resource_id = next_resource_id s,
                                resource_type = RESOURCE_TYPE,
                                group_id = owner\<rparr>;
                    new_plugin_parameter_type =
                      \<lparr>ppt_resource_snapshot_id = next_snapshot_id s,
                       ppt_resource_id = resource_id resource,
                       ppt_name = name,
                       ppt_structure = structure,
                       ppt_description = description,
                       ppt_creator = current_user\<rparr>
                in (Inr new_plugin_parameter_type,
                    s\<lparr>resources := resources s @ [resource],
                      snapshots := snapshots s @ [new_plugin_parameter_type]\<rparr>))))"


text \<open>The dictionary \<open>delete\<close> returns: the status and the id.\<close>

definition PluginParameterTypeIdService_delete ::
  "store \<Rightarrow> int \<Rightarrow> (error + string \<times> int) \<times> store" where
  "PluginParameterTypeIdService_delete s plugin_parameter_type_id =
     (case first (filter (\<lambda>r. resource_id r = plugin_parameter_type_id
                               \<and> resource_type r = RESOURCE_TYPE
                               \<and> \<not> is_deleted s r) (resources s)) of
        None \<Rightarrow> (Inl PluginParameterTypeDoesNotExistError, s)
      | Some plugin_parameter_type_resource \<Rightarrow>
          (let deleted_resource_lock =
                 \<lparr>lock_resource_id = resource_id plugin_parameter_type_resource,
                  resource_lock_type = ''delete''\<rparr>
           in (Inr (''Success'', plugin_parameter_type_id),
               s\<lparr>locks := locks s @ [deleted_resource_lock]\<rparr>)))"

text \<open>
  The rows the list query matches, before paging: the latest snapshot of every
  non-deleted resource, of the group when a group is given.
\<close>

definition listed :: "store \<Rightarrow> int option \<Rightarrow> snapshot_row list" where
  "listed s gid =
     select_join s (\<lambda>p r.
        (case gid of None \<Rightarrow> True | Some g \<Rightarrow> group_id r = g)
        \<and> \<not> is_deleted s r
        \<and> latest_snapshot_id s r = Some (ppt_resource_snapshot_id p))"

text \<open>
  \<open>select(func.count(...))\<close> followed by \<open>scalars(stmt).first()\<close>: the source treats the
  result as optional and raises \<open>BackendDatabaseError\<close> on \<open>None\<close>.
\<close>

definition count_rows :: "'a list \<Rightarrow> int option" where
  "count_rows xs = Some (int (length xs))"

text \<open>
  \<open>.offset(page_index).limit(page_length)\<close>: the two Python integers are bound as
  parameters of the statement, which the database takes as 64-bit signed integers; an
  integer outside that range makes the execution raise \<open>OverflowError\<close>. A negative
  offset skips nothing and a negative limit does not limit, as in SQLite.
\<close>

definition int64_ok :: "int \<Rightarrow> bool" where
  "int64_ok i = (- (2 ^ 63) \<le> i \<and> i < 2 ^ 63)"

definition sql_offset :: "int \<Rightarrow> 'a list \<Rightarrow> 'a list" where
  "sql_offset n xs = drop (nat n) xs"

definition sql_limit :: "int \<Rightarrow> 'a list \<Rightarrow> 'a list" where
  "sql_limit n xs = (if n < 0 then xs else take (nat n) xs)"

definition PluginParameterTypeService_get ::
  "store \<Rightarrow> int option \<Rightarrow> string \<Rightarrow> int \<Rightarrow> int \<Rightarrow> error + snapshot_row list \<times> int" where
  "PluginParameterTypeService_get s gid search_string page_index page_length =
     (if search_string \<noteq> [] then Inl SearchNotImplementedError
      else (case count_rows (listed s gid) of
              None \<Rightarrow> Inl BackendDatabaseError
            | Some total_num_plugin_parameter_types \<Rightarrow>
                (if total_num_plugin_parameter_types = 0
                 then Inr ([], total_num_plugin_parameter_types)
                 else if \<not> (int64_ok page_index \<and> int64_ok page_length)
                 then Inl OverflowError
                 else Inr (sql_limit page_length (sql_offset page_index (listed s gid)),
                           total_num_plugin_parameter_types))))"

text \<open>
  Modelled from the spec: \<open>ResourceSnapshotsIdService.get\<close>
  (\<open>restapi/v1/shared/snapshots/service.py\<close>) is not among the sources, only its controller.
  The spec: \<open>get_snapshot(resource_id, snapshot_id)\<close> returns a specific historical
  snapshot regardless of the deletion state of later versions.
\<close>

definition get_snapshot :: "store \<Rightarrow> int \<Rightarrow> int \<Rightarrow> snapshot_row option" where
  "get_snapshot s rid snapshot_id =
     first (filter (\<lambda>p. ppt_resource_id p = rid \<and> ppt_resource_snapshot_id p = snapshot_id)
              (snapshots s))"

definition PLUGIN_PARAMETER_TYPES :: string where
  "PLUGIN_PARAMETER_TYPES = ''pluginParameterTypes''"

text \<open>
  Modelled from the spec: the controller of the plugin parameter type collection
  (\<open>restapi/v1/plugin_parameter_types/controller.py\<close>) is not among the sources. Per the
  spec a list request passes \<open>groupId\<close>, \<open>search\<close>, \<open>index\<close> and \<open>pageLength\<close> to the
  service and wraps the page and the total in the paging envelope.
\<close>

definition list_plugin_parameter_types ::
  "string \<Rightarrow> (snapshot_row \<Rightarrow> 'a) \<Rightarrow> store \<Rightarrow> int option \<Rightarrow> string \<Rightarrow> int \<Rightarrow> int
     \<Rightarrow> error + 'a paging_envelope" where
  "list_plugin_parameter_types root build_fn s gid search_string page_index page_length =
     (case PluginParameterTypeService_get s gid search_string page_index page_length of
        Inl e \<Rightarrow> Inl e
      | Inr (plugin_parameter_types, total_num) \<Rightarrow>
          Inr (build_paging_envelope root PLUGIN_PARAMETER_TYPES build_fn
                 plugin_parameter_types gid (Some search_string) None
                 page_index page_length total_num))"

text \<open>
  A client that reads the whole collection: it requests a page, and while the envelope
  has a \<open>next\<close> link it requests the page at the index that link carries. The first
  argument bounds the number of requests; \<open>None\<close> means the bound was reached (or a
  request failed) before a page without a \<open>next\<close> link arrived.
\<close>

fun follow_next ::
  "nat \<Rightarrow> string \<Rightarrow> (snapshot_row \<Rightarrow> 'a) \<Rightarrow> store \<Rightarrow> int option \<Rightarrow> int \<Rightarrow> int
     \<Rightarrow> 'a paging_envelope list option" where
  "follow_next 0 root build_fn s gid page_index page_length = None"
| "follow_next (Suc fuel) root build_fn s gid page_index page_length =
     (case list_plugin_parameter_types root build_fn s gid [] page_index page_length of
        Inl e \<Rightarrow> None
      | Inr page \<Rightarrow>
          (case env_next page of
             None \<Rightarrow> Some [page]
           | Some next_url \<Rightarrow>
               (case dict_get (url_query next_url) ''index'' of
                  Some (QInt next_index) \<Rightarrow>
                    (case follow_next fuel root build_fn s gid next_index page_length of
                       None \<Rightarrow> None
                     | Some pages \<Rightarrow> Some (page # pages))
                | _ \<Rightarrow> None)))"

text \<open>
  The integrity constraint of the tables the paging property rests on: primary keys
  (resource ids, snapshot ids) are unique.
\<close>

definition store_ok :: "store \<Rightarrow> bool" where
  "store_ok s =
     (distinct (map resource_id (resources s))
      \<and> distinct (map ppt_resource_snapshot_id (snapshots s)))"

text \<open>
  A store for concrete instances, after the fixtures of the test suite
  (\<open>tests/unit/restapi/v1/conftest.py\<close>): the group "public" with id 1 and three
  registered plugin parameter types, each with its first snapshot.
\<close>

definition registered_store :: store where
  "registered_store =
     \<lparr>groups = [1],
      resources =
        [\<lparr>resource_id = 1, resource_type = RESOURCE_TYPE, group_id = 1\<rparr>,
         \<lparr>resource_id = 2, resource_type = RESOURCE_TYPE, group_id = 1\<rparr>,
         \<lparr>resource_id = 3, resource_type = RESOURCE_TYPE, group_id = 1\<rparr>],
      snapshots =
        [\<lparr>ppt_resource_snapshot_id = 1, ppt_resource_id = 1, ppt_name = ''integer'',
          ppt_structure = JNull, ppt_description = ''An integer'', ppt_creator = 1\<rparr>,
         \<lparr>ppt_resource_snapshot_id = 2, ppt_resource_id = 2, ppt_name = ''string'',
          ppt_structure = JNull, ppt_description = ''A string'', ppt_creator = 1\<rparr>,
         \<lparr>ppt_resource_snapshot_id = 3, ppt_resource_id = 3, ppt_name = ''intlist'',
          ppt_structure = JObj [(''list'', JStr ''integer'')],
          ppt_description = ''A list of integers'', ppt_creator = 1\<rparr>],
      locks = []\<rparr>"

text \<open>
  The same store later on: a second group with a plugin parameter type of its own, a
  fifth plugin parameter type in the first group, resource 1 renamed (its second
  snapshot) and resource 2 deleted.
\<close>

definition edited_store :: store where
  "edited_store =
     \<lparr>groups = [1, 2],
      resources =
        [\<lparr>resource_id = 1, resource_type = RESOURCE_TYPE, group_id = 1\<rparr>,
         \<lparr>resource_id = 2, resource_type = RESOURCE_TYPE, group_id = 1\<rparr>,
         \<lparr>resource_id = 3, resource_type = RESOURCE_TYPE, group_id = 1\<rparr>,
         \<lparr>resource_id = 4, resource_type = RESOURCE_TYPE, group_id = 2\<rparr>,
         \<lparr>resource_id = 5, resource_type = RESOURCE_TYPE, group_id = 1\<rparr>],
      snapshots =
        [\<lparr>ppt_resource_snapshot_id = 1, ppt_resource_id = 1, ppt_name = ''integer'',
          ppt_structure = JNull, ppt_description = ''An integer'', ppt_creator = 1\<rparr>,
         \<lparr>ppt_resource_snapshot_id = 2, ppt_resource_id = 2, ppt_name = ''string'',
          ppt_structure = JNull, ppt_description = ''A string'', ppt_creator = 1\<rparr>,
         \<lparr>ppt_resource_snapshot_id = 3, ppt_resource_id = 3, ppt_name = ''intlist'',
          ppt_structure = JObj [(''list'', JStr ''integer'')],
          ppt_description = ''A list of integers'', ppt_creator = 1\<rparr>,
         \<lparr>ppt_resource_snapshot_id = 4, ppt_resource_id = 4, ppt_name = ''integer'',
          ppt_structure = JNull, ppt_description = ''Another integer'', ppt_creator = 2\<rparr>,
         \<lparr>ppt_resource_snapshot_id = 5, ppt_resource_id = 5, ppt_name = ''float'',
          ppt_structure = JNull, ppt_description = ''A float'', ppt_creator = 1\<rparr>,
         \<lparr>ppt_resource_snapshot_id = 6, ppt_resource_id = 1, ppt_name = ''changed_name'',
          ppt_structure = JObj [(''key'', JStr ''value'')],
          ppt_description = ''An integer'', ppt_creator = 1\<rparr>],
      locks = [\<lparr>lock_resource_id = 2, resource_lock_type = ''delete''\<rparr>]\<rparr>"

section \<open>User passwords (restapi/v1/users/service.py)\<close>

text \<open>
  A \<open>datetime\<close> is its number of microseconds since the epoch, at most that of
  \<open>datetime.max\<close> (the last microsecond of the year 9999); adding a \<open>timedelta\<close> raises
  \<open>OverflowError\<close> when the sum lies beyond it. A UUID is a number. The
  \<open>PasswordService\<close> (\<open>verify\<close>, \<open>hash\<close>) of \<open>restapi/v0/shared/password\<close> is not among
  the sources and is a parameter, as are the clock (\<open>now\<close>) and the value \<open>uuid.uuid4()\<close>
  returns.
\<close>

record user =
  user_id :: int
  username :: string
  email_address :: string
  password :: string
  alternative_id :: nat
  last_modified_on :: int
  password_expire_on :: int

text \<open>
  A password service for concrete instances of the parameters: the stored hash is the
  password itself.
\<close>

definition plain_hash :: "string \<Rightarrow> string" where
  "plain_hash pw = pw"

definition plain_verify :: "string \<Rightarrow> string \<Rightarrow> bool" where
  "plain_verify pw hashed_password = (plain_hash pw = hashed_password)"

definition DAYS_TO_EXPIRE_PASSWORD_DEFAULT :: int where
  "DAYS_TO_EXPIRE_PASSWORD_DEFAULT = 365"

definition timedelta_days :: "int \<Rightarrow> int" where
  "timedelta_days days = days * 86400 * 1000000"

definition DATETIME_MAX :: int where
  "DATETIME_MAX = 253402300799999999"

definition datetime_add :: "int \<Rightarrow> int \<Rightarrow> error + int" where
  "datetime_add t delta = (if t + delta > DATETIME_MAX then Inl OverflowError else Inr (t + delta))"

definition UserPasswordService_authenticate ::
  "(string \<Rightarrow> string \<Rightarrow> bool) \<Rightarrow> int \<Rightarrow> string \<Rightarrow> string \<Rightarrow> int \<Rightarrow> bool \<Rightarrow> error + bool" where
  "UserPasswordService_authenticate verify now pw user_password expiration_date error_if_failed =
     (let current_timestamp = now;
          authenticated = verify pw user_password
      in if \<not> authenticated \<and> error_if_failed then Inl UserPasswordVerificationError
         else if expiration_date < current_timestamp then Inl UserPasswordExpiredError
         else Inr authenticated)"

text \<open>
  \<open>change\<close> assigns to the fields of the user object one after the other; it returns the
  outcome and the user object after the call. The sum for \<open>password_expire_on\<close> is
  evaluated after the first three assignments, so an \<open>OverflowError\<close> there leaves them
  in place. The success value is the status and the username.
\<close>

definition UserPasswordService_change ::
  "(string \<Rightarrow> string \<Rightarrow> bool) \<Rightarrow> (string \<Rightarrow> string) \<Rightarrow> int \<Rightarrow> nat \<Rightarrow> user
     \<Rightarrow> string \<Rightarrow> string \<Rightarrow> string \<Rightarrow> (error + string \<times> string) \<times> user" where
  "UserPasswordService_change verify hash now uuid4 u current_password new_password
       confirm_new_password =
     (if \<not> verify current_password (password u) then (Inl UserPasswordChangeError, u)
      else if new_password \<noteq> confirm_new_password then (Inl UserPasswordChangeError, u)
      else if verify new_password (password u)
      then (Inl UserPasswordChangeSamePasswordError, u)
      else (let timestamp = now;
                u = u\<lparr>password := hash new_password\<rparr>;
                u = u\<lparr>alternative_id := uuid4\<rparr>;
                u = u\<lparr>last_modified_on := timestamp\<rparr>
            in (case datetime_add timestamp
                       (timedelta_days DAYS_TO_EXPIRE_PASSWORD_DEFAULT) of
                  Inl e \<Rightarrow> (Inl e, u)
                | Inr expire_on \<Rightarrow>
                    (let u = u\<lparr>password_expire_on := expire_on\<rparr>
                     in (Inr (''Password Change Success'', username u), u)))))"

section \<open>The group response (restapi/v1/utils.py)\<close>

record member_row =
  member_user_id :: int
  member_user :: user
  member_read :: bool
  member_write :: bool
  member_share_read :: bool
  member_share_write :: bool

record manager_row =
  manager_user_id :: int
  manager_owner :: bool
  manager_admin :: bool

record group_obj =
  grp_group_id :: int
  grp_name :: string
  grp_creator :: user
  grp_members :: "member_row list"
  grp_managers :: "manager_row list"
  grp_created_on :: int
  grp_last_modified_on :: int

record user_ref =
  uref_id :: int
  uref_username :: string
  uref_url :: url

record group_ref =
  gref_id :: int
  gref_name :: string
  gref_url :: url

record permissions =
  perm_read :: bool
  perm_write :: bool
  perm_share_read :: bool
  perm_share_write :: bool
  perm_owner :: bool
  perm_admin :: bool

record member_entry =
  entry_user :: user_ref
  entry_group :: group_ref
  entry_permissions :: permissions

record group_response =
  resp_id :: int
  resp_name :: string
  resp_user :: user_ref
  resp_members :: "member_entry list"
  resp_created_on :: int
  resp_last_modified_on :: int

text \<open>\<open>str\<close> of an integer, for the f-strings that build a route.\<close>

fun str_nat :: "nat \<Rightarrow> string" where
  "str_nat n = (if n < 10 then [''0123456789'' ! n]
                else str_nat (n div 10) @ [''0123456789'' ! (n mod 10)])"

declare str_nat.simps [simp del]

definition str_int :: "int \<Rightarrow> string" where
  "str_int i = (if i < 0 then ''-'' @ str_nat (nat (- i)) else str_nat (nat i))"

definition USERS :: string where "USERS = ''users''"
definition GROUPS :: string where "GROUPS = ''groups''"

definition build_user_ref :: "string \<Rightarrow> user \<Rightarrow> user_ref" where
  "build_user_ref root u =
     \<lparr>uref_id = user_id u,
      uref_username = username u,
      uref_url = build_url root (USERS @ ''/'' @ str_int (user_id u)) None\<rparr>"

definition build_group_ref :: "string \<Rightarrow> group_obj \<Rightarrow> group_ref" where
  "build_group_ref root grp =
     \<lparr>gref_id = grp_group_id grp,
      gref_name = grp_name grp,
      gref_url = build_url root (GROUPS @ ''/'' @ str_int (grp_group_id grp)) None\<rparr>"

text \<open>The first loop of \<open>build_group\<close>: one dictionary entry per member row.\<close>

fun add_members ::
  "string \<Rightarrow> group_obj \<Rightarrow> member_row list \<Rightarrow> (int \<times> member_entry) list
     \<Rightarrow> (int \<times> member_entry) list" where
  "add_members root grp [] members = members"
| "add_members root grp (member # rest) members =
     add_members root grp rest
       (dict_set members (member_user_id member)
          \<lparr>entry_user = build_user_ref root (member_user member),
           entry_group = build_group_ref root grp,
           entry_permissions =
             \<lparr>perm_read = member_read member,
              perm_write = member_write member,
              perm_share_read = member_share_read member,
              perm_share_write = member_share_write member,
              perm_owner = False,
              perm_admin = False\<rparr>\<rparr>)"

text \<open>
  \<open>members[k]["permissions"][flag] = v\<close>: the subscript \<open>members[k]\<close> raises
  \<open>KeyError\<close> when the key is absent; otherwise the entry's permissions change in place.
\<close>

definition set_permission ::
  "(int \<times> member_entry) list \<Rightarrow> int \<Rightarrow> (permissions \<Rightarrow> permissions)
     \<Rightarrow> error + (int \<times> member_entry) list" where
  "set_permission members k upd =
     (case dict_get members k of
        None \<Rightarrow> Inl (KeyError k)
      | Some e \<Rightarrow> Inr (dict_set members k (e\<lparr>entry_permissions := upd (entry_permissions e)\<rparr>)))"

text \<open>The second loop: the owner and admin flags of every manager row.\<close>

fun apply_managers ::
  "manager_row list \<Rightarrow> (int \<times> member_entry) list \<Rightarrow> error + (int \<times> member_entry) list" where
  "apply_managers [] members = Inr members"
| "apply_managers (manager # rest) members =
     (case set_permission members (manager_user_id manager)
             (\<lambda>p. p\<lparr>perm_owner := manager_owner manager\<rparr>) of
        Inl e \<Rightarrow> Inl e
      | Inr members1 \<Rightarrow>
          (case set_permission members1 (manager_user_id manager)
                  (\<lambda>p. p\<lparr>perm_admin := manager_admin manager\<rparr>) of
             Inl e \<Rightarrow> Inl e
           | Inr members2 \<Rightarrow> apply_managers rest members2))"

definition build_group :: "string \<Rightarrow> group_obj \<Rightarrow> error + group_response" where
  "build_group root grp =
     (case apply_managers (grp_managers grp) (add_members root grp (grp_members grp) []) of
        Inl e \<Rightarrow> Inl e
      | Inr members \<Rightarrow>
          Inr \<lparr>resp_id = grp_group_id grp,
               resp_name = grp_name grp,
               resp_user = build_user_ref root (grp_creator grp),
               resp_members = dict_values members,
               resp_created_on = grp_created_on grp,
               resp_last_modified_on = grp_last_modified_on grp\<rparr>)"

text \<open>
  A group for concrete instances, after the fixtures of the test suite: the group
  "public" created by its first user, with two members, the first of them its owner.
\<close>

definition user1 :: user where
  "user1 = \<lparr>user_id = 1, username = ''user1'', email_address = ''user1@example.org'',
             password = ''supersecurepassword'', alternative_id = 7, last_modified_on = 0,
             password_expire_on = 5000\<rparr>"

definition user2 :: user where
  "user2 = \<lparr>user_id = 2, username = ''user2'', email_address = ''user2@example.org'',
             password = ''supersecurepassword'', alternative_id = 8, last_modified_on = 0,
             password_expire_on = 5000\<rparr>"

definition public_group :: group_obj where
  "public_group =
     \<lparr>grp_group_id = 1, grp_name = ''public'', grp_creator = user1,
      grp_members =
        [\<lparr>member_user_id = 1, member_user = user1, member_read = True, member_write = True,
          member_share_read = False, member_share_write = False\<rparr>,
         \<lparr>member_user_id = 2, member_user = user2, member_read = True, member_write = True,
          member_share_read = False, member_share_write = False\<rparr>],
      grp_managers = [\<lparr>manager_user_id = 1, manager_owner = True, manager_admin = True\<rparr>],
      grp_created_on = 0, grp_last_modified_on = 0\<rparr>"

section \<open>The queue collection endpoint (restapi/v1/queues/controller.py)\<close>

text \<open>
  \<open>QueueEndpoint.get\<close> ends in a call of \<open>build_paging_envelope\<close> with positional
  arguments only. A Python call binds positional arguments to the parameters in order;
  a parameter without a default that gets no argument makes the call raise \<open>TypeError\<close>
  (carrying the names of the missing parameters) before the body runs, and so does an
  argument beyond the last parameter. The values passed are dynamically typed.
\<close>

datatype pyval = PyNone | PyInt int | PyStr string | PyFn string | PyList "pyval list"
  | PyObj string

fun bind_positional :: "string list \<Rightarrow> pyval list \<Rightarrow> error + (string \<times> pyval) list" where
  "bind_positional [] [] = Inr []"
| "bind_positional (p # ps) [] = Inl (TypeError (p # ps))"
| "bind_positional [] (a # as) = Inl (TypeError [])"
| "bind_positional (p # ps) (a # as) =
     (case bind_positional ps as of Inl e \<Rightarrow> Inl e | Inr frame \<Rightarrow> Inr ((p, a) # frame))"

text \<open>The parameters of \<open>build_paging_envelope\<close>; none has a default.\<close>

definition build_paging_envelope_params :: "string list" where
  "build_paging_envelope_params =
     [''route_prefix'', ''build_fn'', ''data'', ''group_id'', ''query'', ''draft_type'',
      ''index'', ''length'', ''total_num_elements'']"

text \<open>
  \<open>QueueEndpoint.get\<close>, from the parsed query parameters and the result of
  \<open>QueueService.get\<close> (the queue service is not among the sources). The result is the
  exception of the call, or the parameter bindings the body of \<open>build_paging_envelope\<close>
  would run with.
\<close>

definition QueueEndpoint_get ::
  "pyval list \<times> int \<Rightarrow> string \<Rightarrow> int \<Rightarrow> int \<Rightarrow> error + (string \<times> pyval) list" where
  "QueueEndpoint_get service_result search_string page_index page_length =
     (case service_result of
        (queues, total_num_queues) \<Rightarrow>
          bind_positional build_paging_envelope_params
            [PyStr ''queues'', PyFn ''build_queue'', PyList queues, PyStr search_string,
             PyInt page_index, PyInt page_length, PyInt total_num_queues])"

section \<open>Paging URLs and the paging envelope\<close>

lemma build_paging_url_eq:
  "build_paging_url root rp g s d i l =
     \<lparr>url_path = ''/'' @ root @ ''/'' @ rp,
      url_query = [(''index'', QInt i), (''pageLength'', QInt l)]
        @ (case g of None \<Rightarrow> [] | Some n \<Rightarrow> if n \<noteq> 0 then [(''groupId'', QInt n)] else [])
        @ (case s of None \<Rightarrow> [] | Some t \<Rightarrow> if t \<noteq> [] then [(''search'', QStr t)] else [])
        @ (case d of None \<Rightarrow> [] | Some t \<Rightarrow> if t \<noteq> [] then [(''draft_type'', QStr t)] else [])\<rparr>"
  by (simp add: build_paging_url_def build_url_def truthy_int_def truthy_str_def Let_def
           split: option.splits)

text \<open>
  C10. In every URL \<open>build_paging_url\<close> builds, \<open>index\<close> and \<open>pageLength\<close> are present
  with the values given; \<open>groupId\<close> is present exactly when \<open>group_id\<close> is truthy (neither
  \<open>None\<close> nor 0), \<open>search\<close> and \<open>draft_type\<close> exactly when they are non-empty strings. So
  a group filter of 0, an empty search string and an empty draft type are left out of the
  link although the caller supplied them.
\<close>

theorem build_paging_url_query_params:
  "(dict_get (url_query (build_paging_url root rp g s d i l)) ''index'' = Some (QInt i))
   \<and> (dict_get (url_query (build_paging_url root rp g s d i l)) ''pageLength'' = Some (QInt l))
   \<and> (dict_get (url_query (build_paging_url root rp g s d i l)) ''groupId''
        = (case g of None \<Rightarrow> None | Some n \<Rightarrow> if n \<noteq> 0 then Some (QInt n) else None))
   \<and> (dict_get (url_query (build_paging_url root rp g s d i l)) ''search''
        = (case s of None \<Rightarrow> None | Some t \<Rightarrow> if t \<noteq> [] then Some (QStr t) else None))
   \<and> (dict_get (url_query (build_paging_url root rp g s d i l)) ''draft_type''
        = (case d of None \<Rightarrow> None | Some t \<Rightarrow> if t \<noteq> [] then Some (QStr t) else None))
   \<and> (map fst (url_query (build_paging_url root rp g s d i l))
        = [''index'', ''pageLength'']
          @ (if truthy_int g then [''groupId''] else [])
          @ (if truthy_str s then [''search''] else [])
          @ (if truthy_str d then [''draft_type''] else []))
   \<and> \<not> truthy_int (Some 0) \<and> \<not> truthy_str (Some [])
   \<and> (truthy_int g \<longleftrightarrow> g \<noteq> None \<and> g \<noteq> Some 0)"
  by (simp add: build_paging_url_eq truthy_int_def truthy_str_def split: option.splits)

theorem build_paging_url_query_params_witness:
  "map fst (url_query (build_paging_url ''api/v1'' ''queues'' (Some 0) (Some []) (Some []) 20 10))
     = [''index'', ''pageLength'']
   \<and> map fst (url_query (build_paging_url ''api/v1'' ''queues'' (Some 1) (Some ''x'') None 20 10))
     = [''index'', ''pageLength'', ''groupId'', ''search'']"
  using build_paging_url_query_params [of "''api/v1''" "''queues''" "Some 0" "Some []" "Some []" 20 10]
        build_paging_url_query_params [of "''api/v1''" "''queues''" "Some 1" "Some ''x''" None 20 10]
  by (simp add: truthy_int_def truthy_str_def)

text \<open>
  C5, as stated, has the first, prev and next URLs carry the group id, search and draft
  type of the call. A filter that is falsy in Python is left out of every link: called
  with the group id 0 and empty strings for search and draft type, the envelope's links
  carry \<open>index\<close> and \<open>pageLength\<close> only.
\<close>

theorem envelope_links_counterexample:
  "env_first (build_paging_envelope ''api/v1'' ''queues'' id [1::int, 2] (Some 0) (Some [])
       (Some []) 10 10 30)
     = \<lparr>url_path = ''/api/v1/queues'',
        url_query = [(''index'', QInt 0), (''pageLength'', QInt 10)]\<rparr>
   \<and> env_prev (build_paging_envelope ''api/v1'' ''queues'' id [1::int, 2] (Some 0) (Some [])
       (Some []) 10 10 30)
     = Some \<lparr>url_path = ''/api/v1/queues'',
             url_query = [(''index'', QInt 0), (''pageLength'', QInt 10)]\<rparr>
   \<and> env_next (build_paging_envelope ''api/v1'' ''queues'' id [1::int, 2] (Some 0) (Some [])
       (Some []) 10 10 30)
     = Some \<lparr>url_path = ''/api/v1/queues'',
             url_query = [(''index'', QInt 20), (''pageLength'', QInt 10)]\<rparr>"
  by (simp add: build_paging_envelope_def Let_def build_paging_url_eq)

text \<open>
  C5, amended. The envelope \<open>build_paging_envelope\<close> returns has \<open>index\<close> and
  \<open>total_num_results\<close> equal to its inputs and \<open>is_complete\<close> equal to
  \<open>not (total > index + length)\<close>; its data are the inputs mapped through the build
  function; \<open>prev\<close> is present exactly when \<open>index > 0\<close>, with index
  \<open>max(index - length, 0)\<close>; \<open>next\<close> is present exactly when \<open>total > index + length\<close>,
  with index \<open>index + length\<close>; \<open>first\<close> has index 0. Each of the three URLs has the path
  of the route and the query parameters \<open>index\<close>, \<open>pageLength\<close> (the length given) and,
  in this order, \<open>groupId\<close> when the group id is neither \<open>None\<close> nor 0, \<open>search\<close> when
  the query is a non-empty string and \<open>draft_type\<close> when the draft type is a non-empty
  string, each with the value of the call: the links carry the same truthy filters and
  differ in \<open>index\<close> only. This holds for every index and length, so in particular for
  \<open>index \<ge> 0\<close> and \<open>length > 0\<close>.
\<close>

theorem build_paging_envelope_fields:
  "env_index (build_paging_envelope root rp f xs g q d i l t) = i
   \<and> env_total_num_results (build_paging_envelope root rp f xs g q d i l t) = t
   \<and> env_is_complete (build_paging_envelope root rp f xs g q d i l t) = (\<not> (t > i + l))
   \<and> env_data (build_paging_envelope root rp f xs g q d i l t) = map f xs
   \<and> env_first (build_paging_envelope root rp f xs g q d i l t)
        = \<lparr>url_path = ''/'' @ root @ ''/'' @ rp,
            url_query = [(''index'', QInt (0)), (''pageLength'', QInt l)]
               @ (case g of None \<Rightarrow> [] | Some n \<Rightarrow> if n \<noteq> 0 then [(''groupId'', QInt n)] else [])
               @ (case q of None \<Rightarrow> [] | Some t \<Rightarrow> if t \<noteq> [] then [(''search'', QStr t)] else [])
               @ (case d of None \<Rightarrow> [] | Some t \<Rightarrow>
                    if t \<noteq> [] then [(''draft_type'', QStr t)] else [])\<rparr>
   \<and> env_prev (build_paging_envelope root rp f xs g q d i l t)
        = (if i > 0
           then Some \<lparr>url_path = ''/'' @ root @ ''/'' @ rp,
            url_query = [(''index'', QInt (max (i - l) 0)), (''pageLength'', QInt l)]
               @ (case g of None \<Rightarrow> [] | Some n \<Rightarrow> if n \<noteq> 0 then [(''groupId'', QInt n)] else [])
               @ (case q of None \<Rightarrow> [] | Some t \<Rightarrow> if t \<noteq> [] then [(''search'', QStr t)] else [])
               @ (case d of None \<Rightarrow> [] | Some t \<Rightarrow>
                    if t \<noteq> [] then [(''draft_type'', QStr t)] else [])\<rparr>
           else None)
   \<and> env_next (build_paging_envelope root rp f xs g q d i l t)
        = (if t > i + l
           then Some \<lparr>url_path = ''/'' @ root @ ''/'' @ rp,
            url_query = [(''index'', QInt (i + l)), (''pageLength'', QInt l)]
               @ (case g of None \<Rightarrow> [] | Some n \<Rightarrow> if n \<noteq> 0 then [(''groupId'', QInt n)] else [])
               @ (case q of None \<Rightarrow> [] | Some t \<Rightarrow> if t \<noteq> [] then [(''search'', QStr t)] else [])
               @ (case d of None \<Rightarrow> [] | Some t \<Rightarrow>
                    if t \<noteq> [] then [(''draft_type'', QStr t)] else [])\<rparr>
           else None)"
  by (simp add: build_paging_envelope_def Let_def build_paging_url_eq)

theorem build_paging_envelope_fields_witness:
  "env_prev (build_paging_envelope ''api/v1'' ''queues'' id [1::int, 2] (Some 1) (Some ''name:x'')
       None 5 10 30)
     = Some \<lparr>url_path = ''/api/v1/queues'',
             url_query = [(''index'', QInt 0), (''pageLength'', QInt 10),
                          (''groupId'', QInt 1), (''search'', QStr ''name:x'')]\<rparr>
   \<and> env_next (build_paging_envelope ''api/v1'' ''queues'' id [1::int, 2] (Some 1) (Some ''name:x'')
       None 5 10 30)
     = Some \<lparr>url_path = ''/api/v1/queues'',
             url_query = [(''index'', QInt 15), (''pageLength'', QInt 10),
                          (''groupId'', QInt 1), (''search'', QStr ''name:x'')]\<rparr>
   \<and> \<not> env_is_complete (build_paging_envelope ''api/v1'' ''queues'' id [1::int, 2] (Some 1)
       (Some ''name:x'') None 5 10 30)
   \<and> env_prev (build_paging_envelope ''api/v1'' ''queues'' id [1::int, 2] (Some 1)
       (Some ''name:x'') None 0 10 8) = None
   \<and> env_next (build_paging_envelope ''api/v1'' ''queues'' id [1::int, 2] (Some 1)
       (Some ''name:x'') None 0 10 8) = None"
  using build_paging_envelope_fields [of "''api/v1''" "''queues''" id "[1::int, 2]" "Some 1"
          "Some ''name:x''" None 5 10 30]
        build_paging_envelope_fields [of "''api/v1''" "''queues''" id "[1::int, 2]" "Some 1"
          "Some ''name:x''" None 0 10 8]
  by simp

section \<open>The queue collection endpoint\<close>

text \<open>
  C6. The claim is that the handler of GET on the queue collection returns the paging
  envelope, its call of \<open>build_paging_envelope\<close> supplying the nine arguments the function
  takes. The call in the source passes seven positional arguments (no group id, no draft
  type), so for every request and every result of the queue service the call raises
  \<open>TypeError\<close>: the parameters \<open>length\<close> and \<open>total_num_elements\<close> get no argument, and
  no envelope is built.
\<close>

theorem queue_list_call_raises:
  "QueueEndpoint_get (queues, total_num_queues) search_string page_index page_length
     = Inl (TypeError [''length'', ''total_num_elements''])"
  by (simp add: QueueEndpoint_get_def build_paging_envelope_params_def)

section \<open>Authentication\<close>

text \<open>
  C7, as stated, has the password-expired error raised whenever the expiration date is in
  the past. With a failing verification and \<open>error_if_failed\<close> set, the verification error
  is raised first, also when the password has expired: here the expiration date 5 is
  before the current time 10.
\<close>

theorem authenticate_expired_counterexample:
  "(5::int) < 10
   \<and> UserPasswordService_authenticate plain_verify 10 ''wrong'' ''secret'' 5 True
       = Inl UserPasswordVerificationError
   \<and> UserPasswordService_authenticate plain_verify 10 ''wrong'' ''secret'' 5 True
       \<noteq> Inl UserPasswordExpiredError"
  by (simp add: UserPasswordService_authenticate_def plain_verify_def plain_hash_def)

text \<open>
  C7, amended. \<open>authenticate\<close> raises the verification error when the password does not
  verify and \<open>error_if_failed\<close> is set, whatever the expiration date. In every other case
  it raises the password-expired error when the expiration date is before the current
  time, also when the verification succeeded, and returns the result of the verification
  when it is not. So it returns true exactly when the password verifies against the
  stored hash and the password has not expired.
\<close>

theorem authenticate_outcomes:
  "(\<not> verify pw h \<and> error_if_failed \<longrightarrow>
      UserPasswordService_authenticate verify now pw h expiration_date error_if_failed
        = Inl UserPasswordVerificationError)
   \<and> (expiration_date < now \<and> (verify pw h \<or> \<not> error_if_failed) \<longrightarrow>
      UserPasswordService_authenticate verify now pw h expiration_date error_if_failed
        = Inl UserPasswordExpiredError)
   \<and> (\<not> expiration_date < now \<and> (verify pw h \<or> \<not> error_if_failed) \<longrightarrow>
      UserPasswordService_authenticate verify now pw h expiration_date error_if_failed
        = Inr (verify pw h))
   \<and> (UserPasswordService_authenticate verify now pw h expiration_date error_if_failed = Inr True
        \<longleftrightarrow> verify pw h \<and> \<not> expiration_date < now)"
  by (auto simp add: UserPasswordService_authenticate_def Let_def)

theorem authenticate_outcomes_witness:
  "UserPasswordService_authenticate plain_verify 10 ''secret'' ''secret'' 5 False
     = Inl UserPasswordExpiredError
   \<and> UserPasswordService_authenticate plain_verify 10 ''secret'' ''secret'' 20 True = Inr True
   \<and> UserPasswordService_authenticate plain_verify 10 ''wrong'' ''secret'' 20 True
     = Inl UserPasswordVerificationError
   \<and> UserPasswordService_authenticate plain_verify 10 ''wrong'' ''secret'' 20 False = Inr False"
  using authenticate_outcomes [where verify=plain_verify and pw="''secret''" and h="''secret''" and error_if_failed=False and expiration_date=5 and now=10]
        authenticate_outcomes [where verify=plain_verify and pw="''secret''" and h="''secret''" and error_if_failed=True and expiration_date=20 and now=10]
        authenticate_outcomes [where verify=plain_verify and pw="''wrong''" and h="''secret''" and error_if_failed=True and expiration_date=20 and now=10]
        authenticate_outcomes [where verify=plain_verify and pw="''wrong''" and h="''secret''" and error_if_failed=False and expiration_date=20 and now=10]
  by (simp add: plain_verify_def plain_hash_def)

section \<open>Changing a password\<close>

text \<open>
  C8, as stated, has \<open>change\<close> raise the same-password error whenever the stored hash
  verifies both the current and the new password. The confirmation is compared first:
  when it differs from the new password, the error is the password-change error.
\<close>

theorem change_same_password_counterexample:
  "plain_verify ''secret'' ''secret''
   \<and> fst (UserPasswordService_change plain_verify plain_hash 1000 42
        \<lparr>user_id = 1, username = ''user1'', email_address = ''user1@example.org'',
         password = ''secret'', alternative_id = 7, last_modified_on = 0,
         password_expire_on = 5000\<rparr>
        ''secret'' ''secret'' ''other'')
       = Inl UserPasswordChangeError
   \<and> fst (UserPasswordService_change plain_verify plain_hash 1000 42
        \<lparr>user_id = 1, username = ''user1'', email_address = ''user1@example.org'',
         password = ''secret'', alternative_id = 7, last_modified_on = 0,
         password_expire_on = 5000\<rparr>
        ''secret'' ''secret'' ''other'')
       \<noteq> Inl UserPasswordChangeSamePasswordError"
  by (simp add: UserPasswordService_change_def plain_verify_def plain_hash_def)

text \<open>
  C8, amended. \<open>change\<close> raises the password-change error when the stored hash does not
  verify the current password, and also when it does and the confirmation differs from
  the new password. For a user whose stored hash verifies the submitted current password
  and a new password equal to its confirmation: if the stored hash also verifies the new
  password, \<open>change\<close> raises the same-password error; otherwise the change succeeds, the
  password becomes the hash of the new password, \<open>alternative_id\<close> becomes the value
  \<open>uuid4()\<close> returned, \<open>last_modified_on\<close> the time of the change and
  \<open>password_expire_on\<close> that time plus 365 days. On each of the three errors the user
  object is as it was: \<open>alternative_id\<close>, \<open>password\<close>, \<open>last_modified_on\<close> and
  \<open>password_expire_on\<close> keep their values. (A change whose expiry date would lie beyond
  \<open>datetime.max\<close> raises \<open>OverflowError\<close> from the date arithmetic, after the first
  three fields were assigned.)
\<close>

theorem change_outcomes:
  "(\<not> verify current_password (password u) \<longrightarrow>
      UserPasswordService_change verify hash now new_uuid u current_password new_password
          confirm_new_password
        = (Inl UserPasswordChangeError, u))
   \<and> (verify current_password (password u) \<and> new_password \<noteq> confirm_new_password \<longrightarrow>
      UserPasswordService_change verify hash now new_uuid u current_password new_password
          confirm_new_password
        = (Inl UserPasswordChangeError, u))
   \<and> (verify current_password (password u) \<and> new_password = confirm_new_password
      \<and> verify new_password (password u) \<longrightarrow>
      UserPasswordService_change verify hash now new_uuid u current_password new_password
          confirm_new_password
        = (Inl UserPasswordChangeSamePasswordError, u))
   \<and> (verify current_password (password u) \<and> new_password = confirm_new_password
      \<and> \<not> verify new_password (password u)
      \<and> now + 365 * 86400 * 1000000 \<le> 253402300799999999 \<longrightarrow>
      UserPasswordService_change verify hash now new_uuid u current_password new_password
          confirm_new_password
        = (Inr (''Password Change Success'', username u),
           u\<lparr>password := hash new_password,
             alternative_id := new_uuid,
             last_modified_on := now,
             password_expire_on := now + 365 * 86400 * 1000000\<rparr>))
   \<and> (verify current_password (password u) \<and> new_password = confirm_new_password
      \<and> \<not> verify new_password (password u)
      \<and> now + 365 * 86400 * 1000000 > 253402300799999999 \<longrightarrow>
      UserPasswordService_change verify hash now new_uuid u current_password new_password
          confirm_new_password
        = (Inl OverflowError,
           u\<lparr>password := hash new_password,
             alternative_id := new_uuid,
             last_modified_on := now\<rparr>))"
  by (simp add: UserPasswordService_change_def Let_def timedelta_days_def
        DAYS_TO_EXPIRE_PASSWORD_DEFAULT_def datetime_add_def DATETIME_MAX_def)

theorem change_outcomes_witness:
  "UserPasswordService_change plain_verify plain_hash 1000 42 user1
        ''supersecurepassword'' ''supersecurepassword'' ''supersecurepassword''
     = (Inl UserPasswordChangeSamePasswordError, user1)
   \<and> UserPasswordService_change plain_verify plain_hash 1000 42 user1
        ''supersecurepassword'' ''fresh'' ''typo''
     = (Inl UserPasswordChangeError, user1)
   \<and> UserPasswordService_change plain_verify plain_hash 1000 42 user1
        ''guess'' ''fresh'' ''fresh''
     = (Inl UserPasswordChangeError, user1)
   \<and> UserPasswordService_change plain_verify plain_hash 1000 42 user1
        ''supersecurepassword'' ''fresh'' ''fresh''
     = (Inr (''Password Change Success'', ''user1''),
        user1\<lparr>password := ''fresh'', alternative_id := 42, last_modified_on := 1000,
               password_expire_on := 31536000001000\<rparr>)
   \<and> UserPasswordService_change plain_verify plain_hash 253402300799999999 42 user1
        ''supersecurepassword'' ''fresh'' ''fresh''
     = (Inl OverflowError,
        user1\<lparr>password := ''fresh'', alternative_id := 42,
               last_modified_on := 253402300799999999\<rparr>)"
  using change_outcomes [where verify=plain_verify and hash=plain_hash and now=1000
          and new_uuid=42 and u=user1 and current_password="''supersecurepassword''"
          and new_password="''supersecurepassword''"
          and confirm_new_password="''supersecurepassword''"]
        change_outcomes [where verify=plain_verify and hash=plain_hash and now=1000
          and new_uuid=42 and u=user1 and current_password="''supersecurepassword''"
          and new_password="''fresh''" and confirm_new_password="''typo''"]
        change_outcomes [where verify=plain_verify and hash=plain_hash and now=1000
          and new_uuid=42 and u=user1 and current_password="''guess''"
          and new_password="''fresh''" and confirm_new_password="''fresh''"]
        change_outcomes [where verify=plain_verify and hash=plain_hash and now=1000
          and new_uuid=42 and u=user1 and current_password="''supersecurepassword''"
          and new_password="''fresh''" and confirm_new_password="''fresh''"]
        change_outcomes [where verify=plain_verify and hash=plain_hash
          and now=253402300799999999
          and new_uuid=42 and u=user1 and current_password="''supersecurepassword''"
          and new_password="''fresh''" and confirm_new_password="''fresh''"]
  by (simp add: plain_verify_def plain_hash_def user1_def)

section \<open>The store: ids, queries and locks\<close>

lemma max_id_None_iff: "max_id xs = None \<longleftrightarrow> xs = []"
  by (induction xs) (auto split: option.splits)

lemma max_id_ge: "max_id xs = Some m \<Longrightarrow> x \<in> set xs \<Longrightarrow> x \<le> m"
  by (induction xs arbitrary: m) (auto split: option.splits simp: max_id_None_iff)

lemma max_id_mem: "max_id xs = Some m \<Longrightarrow> m \<in> set xs"
  by (induction xs arbitrary: m) (auto split: option.splits simp: max_def)


lemma next_snapshot_id_greater:
  "p \<in> set (snapshots s) \<Longrightarrow> ppt_resource_snapshot_id p < next_snapshot_id s"
  unfolding next_snapshot_id_def
  by (cases "max_id (map ppt_resource_snapshot_id (snapshots s))")
     (auto simp: max_id_None_iff dest: max_id_ge [where x = "ppt_resource_snapshot_id p"])

lemma next_resource_id_greater:
  "r \<in> set (resources s) \<Longrightarrow> resource_id r < next_resource_id s"
  unfolding next_resource_id_def
  by (cases "max_id (map resource_id (resources s))")
     (auto simp: max_id_None_iff dest: max_id_ge [where x = "resource_id r"])

lemma first_None_iff: "first xs = None \<longleftrightarrow> xs = []"
  by (cases xs) (simp_all add: first_def)

lemma first_mem: "first xs = Some x \<Longrightarrow> x \<in> set xs"
  by (cases xs) (simp_all add: first_def)


lemma first_filter_Some: "first (filter P xs) = Some x \<Longrightarrow> x \<in> set xs \<and> P x"
  using first_mem [of "filter P xs" x] by simp

lemma set_select_join:
  "set (select_join s c) =
     {p \<in> set (snapshots s). \<exists>r\<in>set (resources s). ppt_resource_id p = resource_id r \<and> c p r}"
  by (auto simp: select_join_def)

lemma select_join_Nil_iff:
  "select_join s c = [] \<longleftrightarrow>
     \<not> (\<exists>p\<in>set (snapshots s). \<exists>r\<in>set (resources s). ppt_resource_id p = resource_id r \<and> c p r)"
  using set_select_join [of s c] by (auto simp flip: set_empty)

lemma name_get_exists:
  "\<exists>p\<in>set (snapshots s). \<exists>r\<in>set (resources s).
            ppt_resource_id p = resource_id r \<and> ppt_name p = n \<and> group_id r = g
            \<and> \<not> is_deleted s r \<and> latest_snapshot_id s r = Some (ppt_resource_snapshot_id p)
   \<Longrightarrow> \<exists>q. PluginParameterTypeNameService_get s n g False = Inr (Some q)"
  unfolding PluginParameterTypeNameService_get_def
  by (auto split: option.splits simp: first_None_iff select_join_Nil_iff)

lemma name_get_absent:
  "\<not> (\<exists>p\<in>set (snapshots s). \<exists>r\<in>set (resources s).
            ppt_resource_id p = resource_id r \<and> ppt_name p = n \<and> group_id r = g
            \<and> \<not> is_deleted s r \<and> latest_snapshot_id s r = Some (ppt_resource_snapshot_id p))
   \<Longrightarrow> PluginParameterTypeNameService_get s n g False = Inr None"
  unfolding PluginParameterTypeNameService_get_def
  by (auto split: option.splits simp: first_None_iff select_join_Nil_iff)


lemma id_get_deleted:
  assumes "\<forall>r\<in>set (resources s). resource_id r = rid \<longrightarrow> is_deleted s r"
  shows "PluginParameterTypeIdService_get s rid eif =
           (if eif then Inl PluginParameterTypeDoesNotExistError else Inr None)"
proof -
  have "select_join s (\<lambda>p r. ppt_resource_id p = rid
                    \<and> Some (ppt_resource_snapshot_id p) = latest_snapshot_id s r
                    \<and> \<not> is_deleted s r) = []"
    using assms by (auto simp: select_join_Nil_iff)
  then show ?thesis
    by (simp add: PluginParameterTypeIdService_get_def first_def)
qed

lemma is_deleted_add_lock:
  "is_deleted (s\<lparr>locks := locks s @ [\<lparr>lock_resource_id = k, resource_lock_type = ''delete''\<rparr>]\<rparr>) r
     \<longleftrightarrow> is_deleted s r \<or> resource_id r = k"
  by (auto simp: is_deleted_def)



lemmas store_eval =
  PluginParameterTypeIdService_get_def PluginParameterTypeNameService_get_def
  select_join_def first_def resource_of_def is_deleted_def latest_snapshot_id_def
  next_snapshot_id_def registered_store_def

section \<open>Creating a plugin parameter type\<close>

text \<open>
  C2. If the group \<open>g\<close> already holds a non-deleted plugin parameter type whose latest
  snapshot has the name \<open>n\<close>, \<open>create\<close> raises the already-exists error and the store is
  as before: no resource row and no snapshot row is added. If it holds none and \<open>g\<close> is a
  group, \<open>create\<close> succeeds: it adds one new resource row (a fresh id, the type of plugin
  parameter types, owner \<open>g\<close>) and, for that resource, one snapshot row with a fresh
  snapshot id and the fields given. Every error of \<open>create\<close> leaves the store unchanged.
\<close>

theorem create_name_unique:
  "((\<exists>p\<in>set (snapshots s). \<exists>r\<in>set (resources s).
        ppt_resource_id p = resource_id r \<and> ppt_name p = n \<and> group_id r = g
        \<and> \<not> is_deleted s r \<and> latest_snapshot_id s r = Some (ppt_resource_snapshot_id p))
     \<longrightarrow> PluginParameterTypeService_create s cu n st d g
           = (Inl PluginParameterTypeAlreadyExistsError, s))
   \<and> (\<not> (\<exists>p\<in>set (snapshots s). \<exists>r\<in>set (resources s).
        ppt_resource_id p = resource_id r \<and> ppt_name p = n \<and> group_id r = g
        \<and> \<not> is_deleted s r \<and> latest_snapshot_id s r = Some (ppt_resource_snapshot_id p))
       \<and> g \<in> set (groups s)
     \<longrightarrow> PluginParameterTypeService_create s cu n st d g
           = (Inr \<lparr>ppt_resource_snapshot_id = next_snapshot_id s,
                   ppt_resource_id = next_resource_id s,
                   ppt_name = n, ppt_structure = st, ppt_description = d, ppt_creator = cu\<rparr>,
              s\<lparr>resources := resources s
                    @ [\<lparr>resource_id = next_resource_id s, resource_type = RESOURCE_TYPE,
                        group_id = g\<rparr>],
                snapshots := snapshots s
                    @ [\<lparr>ppt_resource_snapshot_id = next_snapshot_id s,
                        ppt_resource_id = next_resource_id s,
                        ppt_name = n, ppt_structure = st, ppt_description = d,
                        ppt_creator = cu\<rparr>]\<rparr>)
         \<and> next_resource_id s \<notin> resource_id ` set (resources s)
         \<and> next_snapshot_id s \<notin> ppt_resource_snapshot_id ` set (snapshots s))
   \<and> (\<forall>e. fst (PluginParameterTypeService_create s cu n st d g) = Inl e
         \<longrightarrow> snd (PluginParameterTypeService_create s cu n st d g) = s)"
proof (intro conjI impI allI)
  assume ex: "\<exists>p\<in>set (snapshots s). \<exists>r\<in>set (resources s).
        ppt_resource_id p = resource_id r \<and> ppt_name p = n \<and> group_id r = g
        \<and> \<not> is_deleted s r \<and> latest_snapshot_id s r = Some (ppt_resource_snapshot_id p)"
  from name_get_exists [OF ex] obtain q where
    "PluginParameterTypeNameService_get s n g False = Inr (Some q)" ..
  then show "PluginParameterTypeService_create s cu n st d g
           = (Inl PluginParameterTypeAlreadyExistsError, s)"
    by (simp add: PluginParameterTypeService_create_def)
next
  assume a: "\<not> (\<exists>p\<in>set (snapshots s). \<exists>r\<in>set (resources s).
        ppt_resource_id p = resource_id r \<and> ppt_name p = n \<and> group_id r = g
        \<and> \<not> is_deleted s r \<and> latest_snapshot_id s r = Some (ppt_resource_snapshot_id p))
       \<and> g \<in> set (groups s)"
  then have none: "PluginParameterTypeNameService_get s n g False = Inr None"
    using name_get_absent by blast
  from a have grp: "GroupIdService_get s g True = Inr (Some g)"
    by (simp add: GroupIdService_get_def)
  show "PluginParameterTypeService_create s cu n st d g
           = (Inr \<lparr>ppt_resource_snapshot_id = next_snapshot_id s,
                   ppt_resource_id = next_resource_id s,
                   ppt_name = n, ppt_structure = st, ppt_description = d, ppt_creator = cu\<rparr>,
              s\<lparr>resources := resources s
                    @ [\<lparr>resource_id = next_resource_id s, resource_type = RESOURCE_TYPE,
                        group_id = g\<rparr>],
                snapshots := snapshots s
                    @ [\<lparr>ppt_resource_snapshot_id = next_snapshot_id s,
                        ppt_resource_id = next_resource_id s,
                        ppt_name = n, ppt_structure = st, ppt_description = d,
                        ppt_creator = cu\<rparr>]\<rparr>)"
    by (simp add: PluginParameterTypeService_create_def none grp Let_def)
  show "next_resource_id s \<notin> resource_id ` set (resources s)"
    using next_resource_id_greater by force
  show "next_snapshot_id s \<notin> ppt_resource_snapshot_id ` set (snapshots s)"
    using next_snapshot_id_greater by force
next
  fix e
  assume "fst (PluginParameterTypeService_create s cu n st d g) = Inl e"
  then show "snd (PluginParameterTypeService_create s cu n st d g) = s"
    by (auto simp: PluginParameterTypeService_create_def Let_def
             split: sum.splits option.splits)
qed

theorem create_name_unique_witness:
  "PluginParameterTypeService_create registered_store 1 ''integer'' JNull ''again'' 1
     = (Inl PluginParameterTypeAlreadyExistsError, registered_store)
   \<and> fst (PluginParameterTypeService_create registered_store 1 ''float'' JNull ''A float'' 1)
     = Inr \<lparr>ppt_resource_snapshot_id = 4, ppt_resource_id = 4, ppt_name = ''float'',
            ppt_structure = JNull, ppt_description = ''A float'', ppt_creator = 1\<rparr>"
  using create_name_unique [where s=registered_store and cu=1 and n="''integer''" and st=JNull
          and d="''again''" and g=1]
        create_name_unique [where s=registered_store and cu=1 and n="''float''" and st=JNull
          and d="''A float''" and g=1]
  by (simp add: registered_store_def is_deleted_def latest_snapshot_id_def
        next_snapshot_id_def next_resource_id_def)

section \<open>Deleting a plugin parameter type\<close>

text \<open>
  C3. For a non-deleted resource of type plugin parameter type with id \<open>rid\<close>, \<open>delete\<close>
  succeeds and records a lock of kind "delete" for the resource; nothing else changes, in
  particular no snapshot row is removed, and every snapshot of the resource is still
  found by its snapshot id. In the store after the call, \<open>get\<close> by id raises the
  does-not-exist error (with \<open>error_if_not_found\<close> set, as the endpoints call it; it
  returns \<open>None\<close> without), and a second \<open>delete\<close> raises the does-not-exist error.
\<close>

theorem delete_then_get:
  assumes "r \<in> set (resources s)" and "resource_id r = rid"
    and "resource_type r = RESOURCE_TYPE" and "\<not> is_deleted s r"
  shows "\<exists>s'. PluginParameterTypeIdService_delete s rid = (Inr (''Success'', rid), s')
           \<and> locks s' = locks s @ [\<lparr>lock_resource_id = rid, resource_lock_type = ''delete''\<rparr>]
           \<and> snapshots s' = snapshots s
           \<and> resources s' = resources s
           \<and> PluginParameterTypeIdService_get s' rid True
               = Inl PluginParameterTypeDoesNotExistError
           \<and> PluginParameterTypeIdService_get s' rid False = Inr None
           \<and> PluginParameterTypeIdService_delete s' rid
               = (Inl PluginParameterTypeDoesNotExistError, s')
           \<and> (\<forall>snapshot_id. get_snapshot s' rid snapshot_id = get_snapshot s rid snapshot_id)"
proof -
  let ?P = "\<lambda>r. resource_id r = rid \<and> resource_type r = RESOURCE_TYPE \<and> \<not> is_deleted s r"
  let ?s' = "s\<lparr>locks := locks s @ [\<lparr>lock_resource_id = rid, resource_lock_type = ''delete''\<rparr>]\<rparr>"
  from assms have "filter ?P (resources s) \<noteq> []"
    by (auto simp: filter_empty_conv)
  then obtain r0 where r0: "first (filter ?P (resources s)) = Some r0"
    by (cases "filter ?P (resources s)") (auto simp: first_def)
  from first_filter_Some [OF r0] have r0_id: "resource_id r0 = rid" by simp
  have del: "PluginParameterTypeIdService_delete s rid = (Inr (''Success'', rid), ?s')"
    by (simp add: PluginParameterTypeIdService_delete_def r0 r0_id Let_def)
  have gone: "\<forall>r\<in>set (resources ?s'). resource_id r = rid \<longrightarrow> is_deleted ?s' r"
    by (simp add: is_deleted_add_lock)
  have again: "filter (\<lambda>r. resource_id r = rid \<and> resource_type r = RESOURCE_TYPE
                          \<and> \<not> is_deleted ?s' r) (resources ?s') = []"
    by (auto simp: filter_empty_conv is_deleted_add_lock)
  have del2: "PluginParameterTypeIdService_delete ?s' rid
               = (Inl PluginParameterTypeDoesNotExistError, ?s')"
    unfolding PluginParameterTypeIdService_delete_def again by (simp add: first_def)
  show ?thesis
    using del del2 id_get_deleted [OF gone, of True] id_get_deleted [OF gone, of False]
    by (intro exI [of _ ?s']) (simp add: get_snapshot_def)
qed

theorem delete_then_get_witness:
  "fst (PluginParameterTypeIdService_delete registered_store 2) = Inr (''Success'', 2)
   \<and> PluginParameterTypeIdService_get
        (snd (PluginParameterTypeIdService_delete registered_store 2)) 2 True
       = Inl PluginParameterTypeDoesNotExistError
   \<and> get_snapshot (snd (PluginParameterTypeIdService_delete registered_store 2)) 2 2
       = Some \<lparr>ppt_resource_snapshot_id = 2, ppt_resource_id = 2, ppt_name = ''string'',
          ppt_structure = JNull, ppt_description = ''A string'', ppt_creator = 1\<rparr>"
proof -
  have r: "\<lparr>resource_id = 2, resource_type = RESOURCE_TYPE, group_id = 1\<rparr>
             \<in> set (resources registered_store)"
    by (simp add: registered_store_def)
  have d: "\<not> is_deleted registered_store
               \<lparr>resource_id = 2, resource_type = RESOURCE_TYPE, group_id = 1\<rparr>"
    by (simp add: registered_store_def is_deleted_def)
  have g: "get_snapshot registered_store 2 2
       = Some \<lparr>ppt_resource_snapshot_id = 2, ppt_resource_id = 2, ppt_name = ''string'',
          ppt_structure = JNull, ppt_description = ''A string'', ppt_creator = 1\<rparr>"
    by (simp add: registered_store_def get_snapshot_def first_def)
  from delete_then_get [OF r _ _ d, of 2] g show ?thesis
    by auto
qed

section \<open>Modifying a plugin parameter type\<close>






section \<open>The group response\<close>

lemma dict_get_set: "dict_get (dict_set d k v) k' = (if k' = k then Some v else dict_get d k')"
  by (induction d k v rule: dict_set.induct) auto

lemma dict_set_keys: "fst ` set (dict_set d k v) = insert k (fst ` set d)"
  by (induction d k v rule: dict_set.induct) auto

lemma dict_set_distinct: "distinct (map fst d) \<Longrightarrow> distinct (map fst (dict_set d k v))"
proof (induction d k v rule: dict_set.induct)
  case (1 k v)
  then show ?case by simp
next
  case (2 k' v' d k v)
  then show ?case
    using dict_set_keys [of d k v] by (auto simp: image_iff)
qed

lemma dict_get_None_iff: "dict_get d k = None \<longleftrightarrow> k \<notin> fst ` set d"
  by (induction d k rule: dict_get.induct) auto

lemma dict_get_Some_mem: "dict_get d k = Some v \<Longrightarrow> (k, v) \<in> set d"
  by (induction d k rule: dict_get.induct) (auto split: if_splits)

lemma dict_mem_get: "distinct (map fst d) \<Longrightarrow> (k, v) \<in> set d \<Longrightarrow> dict_get d k = Some v"
  by (induction d k rule: dict_get.induct) (auto simp: image_iff)

lemma add_members_keys:
  "fst ` set (add_members root grp ms d) = fst ` set d \<union> member_user_id ` set ms"
  by (induction ms arbitrary: d) (simp_all add: dict_set_keys)

lemma add_members_distinct:
  "distinct (map fst d) \<Longrightarrow> distinct (map fst (add_members root grp ms d))"
  by (induction ms arbitrary: d) (simp_all add: dict_set_distinct)


lemma dict_set_present_keys: "k \<in> fst ` set d \<Longrightarrow> map fst (dict_set d k v) = map fst d"
  by (induction d k v rule: dict_set.induct) (auto simp: image_iff)

lemma dict_set_twice: "dict_set (dict_set d k v) k v' = dict_set d k v'"
  by (induction d k v rule: dict_set.induct) auto

lemma find_snoc:
  "find P (xs @ [x]) = (case find P xs of None \<Rightarrow> (if P x then Some x else None) | Some y \<Rightarrow> Some y)"
  by (induction xs) auto

lemma set_permission_absent:
  "k \<notin> fst ` set d \<Longrightarrow> set_permission d k upd = Inl (KeyError k)"
  using dict_get_None_iff [of d k] by (simp add: set_permission_def)

lemma set_permission_present:
  "dict_get d k = Some e \<Longrightarrow>
     set_permission d k upd = Inr (dict_set d k (e\<lparr>entry_permissions := upd (entry_permissions e)\<rparr>))"
  by (simp add: set_permission_def)

lemma apply_managers_step:
  assumes "dict_get d (manager_user_id m) = Some e"
  shows "apply_managers (m # ms) d =
           apply_managers ms
             (dict_set d (manager_user_id m)
                (e\<lparr>entry_permissions := (entry_permissions e)
                      \<lparr>perm_owner := manager_owner m, perm_admin := manager_admin m\<rparr>\<rparr>))"
  using assms
  by (simp add: set_permission_present [OF assms] set_permission_def dict_get_set
        dict_set_twice)

lemma apply_managers_raises:
  assumes "\<exists>m\<in>set ms. manager_user_id m \<notin> fst ` set d"
  shows "\<exists>k. apply_managers ms d = Inl (KeyError k)
            \<and> k \<in> manager_user_id ` set ms \<and> k \<notin> fst ` set d"
  using assms
proof (induction ms arbitrary: d)
  case Nil
  then show ?case by simp
next
  case (Cons m ms)
  show ?case
  proof (cases "dict_get d (manager_user_id m)")
    case None
    then have "manager_user_id m \<notin> fst ` set d" by (simp add: dict_get_None_iff)
    then show ?thesis by (auto simp: set_permission_absent)
  next
    case (Some e)
    let ?d = "dict_set d (manager_user_id m)
                (e\<lparr>entry_permissions := (entry_permissions e)
                      \<lparr>perm_owner := manager_owner m, perm_admin := manager_admin m\<rparr>\<rparr>)"
    from Some have present: "manager_user_id m \<in> fst ` set d"
      using dict_get_None_iff [of d "manager_user_id m"] by auto
    then have keys: "fst ` set ?d = fst ` set d" by (auto simp: dict_set_keys)
    from Cons.prems present have "\<exists>m\<in>set ms. manager_user_id m \<notin> fst ` set ?d"
      unfolding keys by auto
    from Cons.IH [OF this] show ?thesis
      unfolding apply_managers_step [OF Some] keys by auto
  qed
qed

lemma apply_managers_flags:
  assumes "\<forall>m\<in>set ms. manager_user_id m \<in> fst ` set d"
  shows "\<exists>d'. apply_managers ms d = Inr d' \<and> map fst d' = map fst d
           \<and> (\<forall>k e. dict_get d k = Some e \<longrightarrow>
                 (\<exists>e'. dict_get d' k = Some e'
                    \<and> entry_user e' = entry_user e \<and> entry_group e' = entry_group e
                    \<and> perm_read (entry_permissions e') = perm_read (entry_permissions e)
                    \<and> perm_write (entry_permissions e') = perm_write (entry_permissions e)
                    \<and> perm_share_read (entry_permissions e')
                        = perm_share_read (entry_permissions e)
                    \<and> perm_share_write (entry_permissions e')
                        = perm_share_write (entry_permissions e)
                    \<and> perm_owner (entry_permissions e')
                        = (case find (\<lambda>m. manager_user_id m = k) (rev ms) of
                             None \<Rightarrow> perm_owner (entry_permissions e)
                           | Some m \<Rightarrow> manager_owner m)
                    \<and> perm_admin (entry_permissions e')
                        = (case find (\<lambda>m. manager_user_id m = k) (rev ms) of
                             None \<Rightarrow> perm_admin (entry_permissions e)
                           | Some m \<Rightarrow> manager_admin m)))"
  using assms
proof (induction ms arbitrary: d)
  case Nil
  then show ?case by simp
next
  case (Cons m ms)
  from Cons.prems have present: "manager_user_id m \<in> fst ` set d" by simp
  then obtain e0 where e0: "dict_get d (manager_user_id m) = Some e0"
    using dict_get_None_iff [of d "manager_user_id m"] by auto
  let ?e = "e0\<lparr>entry_permissions := (entry_permissions e0)
                  \<lparr>perm_owner := manager_owner m, perm_admin := manager_admin m\<rparr>\<rparr>"
  let ?d = "dict_set d (manager_user_id m) ?e"
  have keys: "map fst ?d = map fst d" using present by (rule dict_set_present_keys)
  then have "fst ` set ?d = fst ` set d" by (metis list.set_map)
  with Cons.prems have "\<forall>m\<in>set ms. manager_user_id m \<in> fst ` set ?d" by simp
  from Cons.IH [OF this] obtain d' where
    run: "apply_managers ms ?d = Inr d'" and keys': "map fst d' = map fst ?d"
    and flags: "\<And>k e. dict_get ?d k = Some e \<Longrightarrow>
                 (\<exists>e'. dict_get d' k = Some e'
                    \<and> entry_user e' = entry_user e \<and> entry_group e' = entry_group e
                    \<and> perm_read (entry_permissions e') = perm_read (entry_permissions e)
                    \<and> perm_write (entry_permissions e') = perm_write (entry_permissions e)
                    \<and> perm_share_read (entry_permissions e')
                        = perm_share_read (entry_permissions e)
                    \<and> perm_share_write (entry_permissions e')
                        = perm_share_write (entry_permissions e)
                    \<and> perm_owner (entry_permissions e')
                        = (case find (\<lambda>m. manager_user_id m = k) (rev ms) of
                             None \<Rightarrow> perm_owner (entry_permissions e)
                           | Some m \<Rightarrow> manager_owner m)
                    \<and> perm_admin (entry_permissions e')
                        = (case find (\<lambda>m. manager_user_id m = k) (rev ms) of
                             None \<Rightarrow> perm_admin (entry_permissions e)
                           | Some m \<Rightarrow> manager_admin m))"
    by blast
  have "\<exists>e'. dict_get d' k = Some e'
          \<and> entry_user e' = entry_user e \<and> entry_group e' = entry_group e
          \<and> perm_read (entry_permissions e') = perm_read (entry_permissions e)
          \<and> perm_write (entry_permissions e') = perm_write (entry_permissions e)
          \<and> perm_share_read (entry_permissions e') = perm_share_read (entry_permissions e)
          \<and> perm_share_write (entry_permissions e') = perm_share_write (entry_permissions e)
          \<and> perm_owner (entry_permissions e')
              = (case find (\<lambda>m. manager_user_id m = k) (rev (m # ms)) of
                   None \<Rightarrow> perm_owner (entry_permissions e)
                 | Some m \<Rightarrow> manager_owner m)
          \<and> perm_admin (entry_permissions e')
              = (case find (\<lambda>m. manager_user_id m = k) (rev (m # ms)) of
                   None \<Rightarrow> perm_admin (entry_permissions e)
                 | Some m \<Rightarrow> manager_admin m)"
    if ke: "dict_get d k = Some e" for k e
  proof (cases "k = manager_user_id m")
    case True
    with ke e0 have "e0 = e" by simp
    with True have "dict_get ?d k = Some (e\<lparr>entry_permissions := (entry_permissions e)
                  \<lparr>perm_owner := manager_owner m, perm_admin := manager_admin m\<rparr>\<rparr>)"
      by (simp add: dict_get_set)
    from flags [OF this] True show ?thesis
      by (auto simp: find_snoc split: option.splits)
  next
    case False
    with ke have "dict_get ?d k = Some e" by (simp add: dict_get_set)
    from flags [OF this] False show ?thesis
      by (auto simp: find_snoc split: option.splits)
  qed
  then show ?case
    unfolding apply_managers_step [OF e0] using run keys keys' by simp
qed


lemma add_members_entry:
  "dict_get (add_members root grp ms d) k =
     (case find (\<lambda>m. member_user_id m = k) (rev ms) of
        None \<Rightarrow> dict_get d k
      | Some m \<Rightarrow>
          Some \<lparr>entry_user = build_user_ref root (member_user m),
                entry_group = build_group_ref root grp,
                entry_permissions =
                  \<lparr>perm_read = member_read m, perm_write = member_write m,
                   perm_share_read = member_share_read m,
                   perm_share_write = member_share_write m,
                   perm_owner = False, perm_admin = False\<rparr>\<rparr>)"
  by (induction ms arbitrary: d) (auto simp: find_snoc dict_get_set split: option.splits)

text \<open>
  C9. \<open>build_group\<close> returns a response exactly when every user of the group's manager
  rows also has a member row. Then the response has one entry per distinct member user
  id: the keys of the dictionary behind \<open>resp_members\<close> are distinct and are the member
  user ids; the entry of a user id takes its user, group and read, write and share flags
  from the member row of that id (the last one, should there be several), and its owner
  and admin flags from the manager row of that id (again the last one), both being false
  when the user has no manager row. When some manager has no member row, the subscript
  \<open>members[manager.user_id]\<close> fails: \<open>build_group\<close> raises \<open>KeyError\<close> for the id of a
  manager that is not a member.
\<close>

theorem build_group_total_iff:
  "((\<forall>mg\<in>set (grp_managers grp).
        manager_user_id mg \<in> member_user_id ` set (grp_members grp)) \<longrightarrow>
      (\<exists>resp d. build_group root grp = Inr resp
         \<and> resp_members resp = map snd d
         \<and> distinct (map fst d)
         \<and> fst ` set d = member_user_id ` set (grp_members grp)
         \<and> (\<forall>k e. (k, e) \<in> set d \<longrightarrow>
               (\<exists>m. find (\<lambda>m. member_user_id m = k) (rev (grp_members grp)) = Some m
                  \<and> entry_user e = build_user_ref root (member_user m)
                  \<and> entry_group e = build_group_ref root grp
                  \<and> perm_read (entry_permissions e) = member_read m
                  \<and> perm_write (entry_permissions e) = member_write m
                  \<and> perm_share_read (entry_permissions e) = member_share_read m
                  \<and> perm_share_write (entry_permissions e) = member_share_write m)
               \<and> perm_owner (entry_permissions e)
                   = (case find (\<lambda>mg. manager_user_id mg = k) (rev (grp_managers grp)) of
                        None \<Rightarrow> False | Some mg \<Rightarrow> manager_owner mg)
               \<and> perm_admin (entry_permissions e)
                   = (case find (\<lambda>mg. manager_user_id mg = k) (rev (grp_managers grp)) of
                        None \<Rightarrow> False | Some mg \<Rightarrow> manager_admin mg))))
   \<and> ((\<exists>mg\<in>set (grp_managers grp).
        manager_user_id mg \<notin> member_user_id ` set (grp_members grp)) \<longrightarrow>
      (\<exists>k. build_group root grp = Inl (KeyError k)
         \<and> k \<in> manager_user_id ` set (grp_managers grp)
         \<and> k \<notin> member_user_id ` set (grp_members grp)))"
proof (intro conjI impI)
  let ?d0 = "add_members root grp (grp_members grp) []"
  have keys0: "fst ` set ?d0 = member_user_id ` set (grp_members grp)"
    by (simp add: add_members_keys)
  have dist0: "distinct (map fst ?d0)"
    by (rule add_members_distinct) simp
  {
    assume "\<forall>mg\<in>set (grp_managers grp).
              manager_user_id mg \<in> member_user_id ` set (grp_members grp)"
    then have "\<forall>mg\<in>set (grp_managers grp). manager_user_id mg \<in> fst ` set ?d0"
      by (simp add: keys0)
    from apply_managers_flags [OF this] obtain d where
      run: "apply_managers (grp_managers grp) ?d0 = Inr d"
      and keys: "map fst d = map fst ?d0"
      and flags: "\<And>k e. dict_get ?d0 k = Some e \<Longrightarrow>
                 (\<exists>e'. dict_get d k = Some e'
                    \<and> entry_user e' = entry_user e \<and> entry_group e' = entry_group e
                    \<and> perm_read (entry_permissions e') = perm_read (entry_permissions e)
                    \<and> perm_write (entry_permissions e') = perm_write (entry_permissions e)
                    \<and> perm_share_read (entry_permissions e')
                        = perm_share_read (entry_permissions e)
                    \<and> perm_share_write (entry_permissions e')
                        = perm_share_write (entry_permissions e)
                    \<and> perm_owner (entry_permissions e')
                        = (case find (\<lambda>m. manager_user_id m = k) (rev (grp_managers grp)) of
                             None \<Rightarrow> perm_owner (entry_permissions e)
                           | Some m \<Rightarrow> manager_owner m)
                    \<and> perm_admin (entry_permissions e')
                        = (case find (\<lambda>m. manager_user_id m = k) (rev (grp_managers grp)) of
                             None \<Rightarrow> perm_admin (entry_permissions e)
                           | Some m \<Rightarrow> manager_admin m))"
      by blast
    have dist: "distinct (map fst d)" using keys dist0 by simp
    have keyset: "fst ` set d = member_user_id ` set (grp_members grp)"
      using keys keys0 by (metis list.set_map)
    have entries: "(\<exists>m. find (\<lambda>m. member_user_id m = k) (rev (grp_members grp)) = Some m
                  \<and> entry_user e = build_user_ref root (member_user m)
                  \<and> entry_group e = build_group_ref root grp
                  \<and> perm_read (entry_permissions e) = member_read m
                  \<and> perm_write (entry_permissions e) = member_write m
                  \<and> perm_share_read (entry_permissions e) = member_share_read m
                  \<and> perm_share_write (entry_permissions e) = member_share_write m)
               \<and> perm_owner (entry_permissions e)
                   = (case find (\<lambda>mg. manager_user_id mg = k) (rev (grp_managers grp)) of
                        None \<Rightarrow> False | Some mg \<Rightarrow> manager_owner mg)
               \<and> perm_admin (entry_permissions e)
                   = (case find (\<lambda>mg. manager_user_id mg = k) (rev (grp_managers grp)) of
                        None \<Rightarrow> False | Some mg \<Rightarrow> manager_admin mg)"
      if mem: "(k, e) \<in> set d" for k e
    proof -
      from dict_mem_get [OF dist mem] have got: "dict_get d k = Some e" .
      from mem have "k \<in> fst ` set d" by force
      then have "k \<in> fst ` set ?d0" using keys by (metis list.set_map)
      then obtain e0 where e0: "dict_get ?d0 k = Some e0"
        using dict_get_None_iff [of ?d0 k] by auto
      then obtain m where m: "find (\<lambda>m. member_user_id m = k) (rev (grp_members grp)) = Some m"
        and e0_eq: "e0 = \<lparr>entry_user = build_user_ref root (member_user m),
                entry_group = build_group_ref root grp,
                entry_permissions =
                  \<lparr>perm_read = member_read m, perm_write = member_write m,
                   perm_share_read = member_share_read m,
                   perm_share_write = member_share_write m,
                   perm_owner = False, perm_admin = False\<rparr>\<rparr>"
        unfolding add_members_entry by (auto split: option.splits)
      from e0 e0_eq have e0': "dict_get ?d0 k = Some \<lparr>entry_user = build_user_ref root (member_user m),
                entry_group = build_group_ref root grp,
                entry_permissions =
                  \<lparr>perm_read = member_read m, perm_write = member_write m,
                   perm_share_read = member_share_read m,
                   perm_share_write = member_share_write m,
                   perm_owner = False, perm_admin = False\<rparr>\<rparr>"
        by simp
      note fl = flags [OF e0', unfolded got, simplified]
      from fl m show ?thesis by (simp split: option.splits)
    qed
    show "\<exists>resp d. build_group root grp = Inr resp
         \<and> resp_members resp = map snd d
         \<and> distinct (map fst d)
         \<and> fst ` set d = member_user_id ` set (grp_members grp)
         \<and> (\<forall>k e. (k, e) \<in> set d \<longrightarrow>
               (\<exists>m. find (\<lambda>m. member_user_id m = k) (rev (grp_members grp)) = Some m
                  \<and> entry_user e = build_user_ref root (member_user m)
                  \<and> entry_group e = build_group_ref root grp
                  \<and> perm_read (entry_permissions e) = member_read m
                  \<and> perm_write (entry_permissions e) = member_write m
                  \<and> perm_share_read (entry_permissions e) = member_share_read m
                  \<and> perm_share_write (entry_permissions e) = member_share_write m)
               \<and> perm_owner (entry_permissions e)
                   = (case find (\<lambda>mg. manager_user_id mg = k) (rev (grp_managers grp)) of
                        None \<Rightarrow> False | Some mg \<Rightarrow> manager_owner mg)
               \<and> perm_admin (entry_permissions e)
                   = (case find (\<lambda>mg. manager_user_id mg = k) (rev (grp_managers grp)) of
                        None \<Rightarrow> False | Some mg \<Rightarrow> manager_admin mg))"
      using dist keyset entries
      by (intro exI [of _ "\<lparr>resp_id = grp_group_id grp, resp_name = grp_name grp,
                 resp_user = build_user_ref root (grp_creator grp),
                 resp_members = map snd d, resp_created_on = grp_created_on grp,
                 resp_last_modified_on = grp_last_modified_on grp\<rparr>"] exI [of _ d])
         (simp add: build_group_def run dict_values_def)
  }
  {
    assume "\<exists>mg\<in>set (grp_managers grp).
              manager_user_id mg \<notin> member_user_id ` set (grp_members grp)"
    then have "\<exists>mg\<in>set (grp_managers grp). manager_user_id mg \<notin> fst ` set ?d0"
      by (simp add: keys0)
    from apply_managers_raises [OF this] keys0
    show "\<exists>k. build_group root grp = Inl (KeyError k)
         \<and> k \<in> manager_user_id ` set (grp_managers grp)
         \<and> k \<notin> member_user_id ` set (grp_members grp)"
      by (auto simp: build_group_def)
  }
qed


theorem build_group_total_iff_witness:
  "set (map manager_user_id (grp_managers public_group))
     \<subseteq> set (map member_user_id (grp_members public_group))
   \<and> (\<exists>resp. build_group ''api/v1'' public_group = Inr resp
         \<and> map (\<lambda>e. uref_id (entry_user e)) (resp_members resp) = [1, 2]
         \<and> map (\<lambda>e. perm_owner (entry_permissions e)) (resp_members resp) = [True, False])
   \<and> build_group ''api/v1''
        (public_group\<lparr>grp_managers :=
           [\<lparr>manager_user_id = 3, manager_owner = True, manager_admin = False\<rparr>]\<rparr>)
       = Inl (KeyError 3)"
  using build_group_total_iff [of public_group "''api/v1''"]
        build_group_total_iff [of "public_group\<lparr>grp_managers :=
           [\<lparr>manager_user_id = 3, manager_owner = True, manager_admin = False\<rparr>]\<rparr>"
           "''api/v1''"]
  by (simp add: public_group_def user1_def user2_def build_group_def set_permission_def
        dict_values_def build_user_ref_def)

section \<open>Reading a collection page by page\<close>

lemma join_one_resource:
  "distinct (map resource_id rs) \<Longrightarrow>
     concat (map (\<lambda>r. if k = resource_id r \<and> C r then [p] else []) rs)
       = (if \<exists>r\<in>set rs. k = resource_id r \<and> C r then [p] else [])"
  by (induction rs) (auto simp: image_iff)

lemma concat_singletons_filter:
  "concat (map (\<lambda>p. if P p then [p] else []) ps) = filter P ps"
  by (induction ps) auto

lemma select_join_filter:
  assumes "distinct (map resource_id (resources s))"
  shows "select_join s c =
           filter (\<lambda>p. \<exists>r\<in>set (resources s). ppt_resource_id p = resource_id r \<and> c p r)
             (snapshots s)"
  unfolding select_join_def
  by (simp add: join_one_resource [OF assms] concat_singletons_filter)

lemma distinct_listed: "store_ok s \<Longrightarrow> distinct (listed s gid)"
  unfolding listed_def store_ok_def
  by (auto simp: select_join_filter distinct_map)

lemma listed_rows:
  assumes "store_ok s"
  shows "listed s gid =
           filter (\<lambda>p. \<exists>r\<in>set (resources s).
                      ppt_resource_id p = resource_id r
                      \<and> (case gid of None \<Rightarrow> True | Some g \<Rightarrow> group_id r = g)
                      \<and> \<not> is_deleted s r
                      \<and> latest_snapshot_id s r = Some (ppt_resource_snapshot_id p))
             (snapshots s)"
  using assms unfolding listed_def store_ok_def by (simp add: select_join_filter)

lemma service_get_page:
  assumes "0 \<le> i" and "i < 2 ^ 63" and "0 < L" and "L < 2 ^ 63"
  shows "PluginParameterTypeService_get s gid [] i L =
     Inr (take (nat L) (drop (nat i) (listed s gid)), int (length (listed s gid)))"
  using assms
  by (simp add: PluginParameterTypeService_get_def count_rows_def int64_ok_def
        sql_limit_def sql_offset_def)

lemma list_page:
  assumes "0 \<le> i" and "i < 2 ^ 63" and "0 < L" and "L < 2 ^ 63"
  shows "list_plugin_parameter_types root f s gid [] i L =
     Inr (build_paging_envelope root PLUGIN_PARAMETER_TYPES f
            (take (nat L) (drop (nat i) (listed s gid))) gid (Some []) None i L
            (int (length (listed s gid))))"
  by (simp add: list_plugin_parameter_types_def service_get_page [OF assms])

lemma page_next:
  "env_next (build_paging_envelope root rp f xs g q d i L t)
     = (if t > i + L then Some (build_paging_url root rp g q d (i + L) L) else None)"
  by (simp add: build_paging_envelope_def Let_def)

lemma page_next_index:
  "dict_get (url_query (build_paging_url root rp g q d j L)) ''index'' = Some (QInt j)"
  by (simp add: build_paging_url_eq)

lemma page_complete:
  "env_is_complete (build_paging_envelope root rp f xs g q d i L t) = (\<not> t > i + L)"
  by (simp add: build_paging_envelope_def Let_def)

lemma page_data:
  "env_data (build_paging_envelope root rp f xs g q d i L t) = map f xs"
  by (simp add: build_paging_envelope_def Let_def)

lemma page_total:
  "env_total_num_results (build_paging_envelope root rp f xs g q d i L t) = t"
  by (simp add: build_paging_envelope_def Let_def)

lemma follow_next_pages:
  assumes "0 < L" and "L < 2 ^ 63" and "int (length (listed s gid)) < 2 ^ 63"
  shows "0 \<le> i \<Longrightarrow> i \<le> int (length (listed s gid)) \<Longrightarrow>
         int (length (listed s gid)) < i + int fuel * L \<Longrightarrow> 0 < fuel \<Longrightarrow>
         \<exists>pages. follow_next fuel root f s gid i L = Some pages \<and> pages \<noteq> []
           \<and> concat (map env_data pages) = map f (drop (nat i) (listed s gid))
           \<and> env_is_complete (last pages)
           \<and> (\<forall>e\<in>set (butlast pages). \<not> env_is_complete e)
           \<and> (\<forall>e\<in>set pages. env_total_num_results e = int (length (listed s gid)))"
proof (induction fuel arbitrary: i)
  case 0
  then show ?case by simp
next
  case (Suc fuel)
  let ?items = "listed s gid"
  let ?page = "build_paging_envelope root PLUGIN_PARAMETER_TYPES f
            (take (nat L) (drop (nat i) ?items)) gid (Some []) None i L (int (length ?items))"
  have small: "i < 2 ^ 63" using Suc.prems(2) assms(3) by simp
  note page = list_page [OF Suc.prems(1) small assms(1) assms(2), of root f s gid]
  show ?case
  proof (cases "int (length ?items) > i + L")
    case True
    have bound: "int (length ?items) < (i + L) + int fuel * L"
      using Suc.prems(3) by (simp add: algebra_simps)
    have pos: "0 < fuel"
    proof (rule ccontr)
      assume "\<not> 0 < fuel"
      then have "fuel = 0" by simp
      with bound True show False by simp
    qed
    have nonneg: "0 \<le> i + L" using Suc.prems(1) assms(1) by simp
    have within: "i + L \<le> int (length ?items)" using True by simp
    from Suc.IH [OF nonneg within bound pos] obtain rest where
      rest: "follow_next fuel root f s gid (i + L) L = Some rest" and ne: "rest \<noteq> []"
      and data: "concat (map env_data rest) = map f (drop (nat (i + L)) ?items)"
      and last_c: "env_is_complete (last rest)"
      and others: "\<forall>e\<in>set (butlast rest). \<not> env_is_complete e"
      and totals: "\<forall>e\<in>set rest. env_total_num_results e = int (length ?items)"
      by blast
    have run: "follow_next (Suc fuel) root f s gid i L = Some (?page # rest)"
      using True rest by (simp add: page page_next page_next_index)
    have split: "nat (i + L) = nat L + nat i"
      using Suc.prems(1) assms(1) by simp
    have "take (nat L) (drop (nat i) ?items) @ drop (nat (i + L)) ?items = drop (nat i) ?items"
      unfolding split by (simp flip: drop_drop)
    then have "map f (take (nat L) (drop (nat i) ?items)) @ map f (drop (nat (i + L)) ?items)
                 = map f (drop (nat i) ?items)"
      by (metis map_append)
    then have cat: "concat (map env_data (?page # rest)) = map f (drop (nat i) ?items)"
      using data by (simp add: page_data)
    show ?thesis
      using run ne cat last_c others totals True
      by (intro exI [of _ "?page # rest"]) (simp add: page_complete page_total)
  next
    case False
    have run: "follow_next (Suc fuel) root f s gid i L = Some [?page]"
      using False by (simp add: page page_next)
    have "length (drop (nat i) ?items) \<le> nat L"
      using False Suc.prems(1) by simp
    then have "take (nat L) (drop (nat i) ?items) = drop (nat i) ?items"
      by simp
    then show ?thesis
      using run False by (simp add: page_data page_complete page_total)
  qed
qed

lemma follow_next_mono:
  "follow_next fuel root f s gid i L = Some pages \<Longrightarrow> fuel \<le> fuel' \<Longrightarrow>
     follow_next fuel' root f s gid i L = Some pages"
proof (induction fuel arbitrary: i pages fuel')
  case 0
  then show ?case by simp
next
  case (Suc fuel)
  then obtain k where k: "fuel' = Suc k" "fuel \<le> k" by (cases fuel') auto
  from Suc.prems(1) Suc.IH [where fuel' = k] k show ?case
    by (auto split: sum.splits option.splits qval.splits)
qed

text \<open>
  C4, as stated, holds for every page length \<open>L > 0\<close>. The page length is bound as a
  64-bit parameter of the query: with \<open>L = 2^63\<close> and a collection that is not empty,
  the first request already raises \<open>OverflowError\<close>, and no page arrives however many
  requests the client is allowed.
\<close>

theorem paging_overflow_counterexample:
  "(0::int) < 9223372036854775808
   \<and> PluginParameterTypeService_get registered_store None [] 0 9223372036854775808
       = Inl OverflowError
   \<and> follow_next 4 ''api/v1'' ppt_name registered_store None 0 9223372036854775808 = None"
  by (simp add: eval_nat_numeral list_plugin_parameter_types_def
        PluginParameterTypeService_get_def count_rows_def int64_ok_def listed_def store_eval)

text \<open>
  C4, amended. Let the primary keys of the store be unique, its snapshot table hold
  fewer than \<open>2^63\<close> rows, and the page length \<open>L\<close> satisfy \<open>0 < L < 2^63\<close>. The
  collection is the list of the snapshot rows that are the latest snapshot of a
  non-deleted resource (of the group, when a group is given), in table order: no row
  of a deleted resource, no superseded snapshot, no row of another group; let \<open>N\<close> be
  its length. A client that starts at index 0 and follows the \<open>next\<close> links receives,
  after at most \<open>N + 1\<close> requests, a non-empty list of pages whose data, concatenated,
  are the \<open>N\<close> rows mapped through the build function: every row once, none twice.
  \<open>is_complete\<close> is true on the last page and false on every page before it, and every
  page reports \<open>N\<close> as the total.
\<close>

theorem paging_yields_all:
  assumes "store_ok s" and "0 < L" and "L < 2 ^ 63" and "int (length (snapshots s)) < 2 ^ 63"
  shows "\<exists>pages.
           listed s gid =
             filter (\<lambda>p. \<exists>r\<in>set (resources s).
                        ppt_resource_id p = resource_id r
                        \<and> (case gid of None \<Rightarrow> True | Some g \<Rightarrow> group_id r = g)
                        \<and> \<not> is_deleted s r
                        \<and> latest_snapshot_id s r = Some (ppt_resource_snapshot_id p))
               (snapshots s)
           \<and> (\<forall>fuel. length (listed s gid) < fuel \<longrightarrow>
                follow_next fuel root f s gid 0 L = Some pages)
           \<and> pages \<noteq> []
           \<and> concat (map env_data pages) = map f (listed s gid)
           \<and> distinct (listed s gid)
           \<and> (inj_on f (set (listed s gid)) \<longrightarrow> distinct (concat (map env_data pages)))
           \<and> env_is_complete (last pages)
           \<and> (\<forall>e\<in>set (butlast pages). \<not> env_is_complete e)
           \<and> (\<forall>e\<in>set pages. env_total_num_results e = int (length (listed s gid)))"
proof -
  let ?n = "length (listed s gid)"
  note rows = listed_rows [OF assms(1), of gid]
  have "?n \<le> length (snapshots s)" unfolding rows by simp
  with assms(4) have few: "int ?n < 2 ^ 63" by simp
  have "int ?n < int (Suc ?n)" by simp
  also have "int (Suc ?n) * 1 \<le> int (Suc ?n) * L"
    using assms(2) by (intro mult_left_mono) simp_all
  finally have enough: "int ?n < 0 + int (Suc ?n) * L" by simp
  from follow_next_pages [OF assms(2) assms(3) few order_refl _ enough, of root f]
  obtain pages where
    run: "follow_next (Suc ?n) root f s gid 0 L = Some pages" and ne: "pages \<noteq> []"
    and data: "concat (map env_data pages) = map f (listed s gid)"
    and last_c: "env_is_complete (last pages)"
    and others: "\<forall>e\<in>set (butlast pages). \<not> env_is_complete e"
    and totals: "\<forall>e\<in>set pages. env_total_num_results e = int ?n"
    by auto
  have any: "\<forall>fuel. ?n < fuel \<longrightarrow> follow_next fuel root f s gid 0 L = Some pages"
    using follow_next_mono [OF run] by (simp add: Suc_le_eq)
  have dist: "distinct (listed s gid)"
    using assms(1) by (rule distinct_listed)
  have "distinct (concat (map env_data pages))" if "inj_on f (set (listed s gid))"
    unfolding data using dist that by (simp add: distinct_map)
  with rows any ne data dist last_c others totals show ?thesis
    by (intro exI [of _ pages]) simp
qed

theorem paging_yields_all_witness:
  "store_ok edited_store \<and> (0::int) < 2 \<and> (2::int) < 2 ^ 63
   \<and> int (length (snapshots edited_store)) < 2 ^ 63
   \<and> (\<exists>pages. follow_next 4 ''api/v1'' ppt_name edited_store (Some 1) 0 2 = Some pages
         \<and> concat (map env_data pages) = [''intlist'', ''float'', ''changed_name'']
         \<and> map env_data pages = [[''intlist'', ''float''], [''changed_name'']]
         \<and> map env_is_complete pages = [False, True])"
proof -
  have ok: "store_ok edited_store"
    by (simp add: store_ok_def edited_store_def)
  have few: "int (length (snapshots edited_store)) < 2 ^ 63"
    by (simp add: edited_store_def)
  have l1: "(0::int) < 2" and l2: "(2::int) < 2 ^ 63" by simp_all
  from paging_yields_all [OF ok l1 l2 few, of "Some 1" "''api/v1''" ppt_name]
  obtain pages where
    rows: "listed edited_store (Some 1) =
             filter (\<lambda>p. \<exists>r\<in>set (resources edited_store).
                        ppt_resource_id p = resource_id r
                        \<and> (case Some 1 of None \<Rightarrow> True | Some g \<Rightarrow> group_id r = g)
                        \<and> \<not> is_deleted edited_store r
                        \<and> latest_snapshot_id edited_store r
                            = Some (ppt_resource_snapshot_id p))
               (snapshots edited_store)"
    and run: "\<forall>fuel. length (listed edited_store (Some 1)) < fuel \<longrightarrow>
                follow_next fuel ''api/v1'' ppt_name edited_store (Some 1) 0 2 = Some pages"
    and data: "concat (map env_data pages) = map ppt_name (listed edited_store (Some 1))"
    by blast
  have items: "map ppt_name (listed edited_store (Some 1))
                 = [''intlist'', ''float'', ''changed_name'']"
    unfolding rows by (simp add: edited_store_def is_deleted_def latest_snapshot_id_def)
  then have n: "length (listed edited_store (Some 1)) = 3"
    by (metis length_map length_Cons list.size(3) numeral_3_eq_3)
  from run n have run4: "follow_next 4 ''api/v1'' ppt_name edited_store (Some 1) 0 2 = Some pages"
    by simp
  have "follow_next 4 ''api/v1'' ppt_name edited_store (Some 1) 0 2
          = Some [build_paging_envelope ''api/v1'' PLUGIN_PARAMETER_TYPES ppt_name
                    (take 2 (listed edited_store (Some 1))) (Some 1) (Some []) None 0 2 3,
                  build_paging_envelope ''api/v1'' PLUGIN_PARAMETER_TYPES ppt_name
                    (drop 2 (listed edited_store (Some 1))) (Some 1) (Some []) None 2 2 3]"
    by (simp add: eval_nat_numeral list_page page_next page_next_index n)
  with run4 have pages: "pages
          = [build_paging_envelope ''api/v1'' PLUGIN_PARAMETER_TYPES ppt_name
                    (take 2 (listed edited_store (Some 1))) (Some 1) (Some []) None 0 2 3,
             build_paging_envelope ''api/v1'' PLUGIN_PARAMETER_TYPES ppt_name
                    (drop 2 (listed edited_store (Some 1))) (Some 1) (Some []) None 2 2 3]"
    by simp
  have shape: "map env_data pages = [[''intlist'', ''float''], [''changed_name'']]
                \<and> map env_is_complete pages = [False, True]"
    unfolding pages using items
    by (simp add: page_data page_complete take_map [symmetric] drop_map [symmetric])
  from data items have "concat (map env_data pages) = [''intlist'', ''float'', ''changed_name'']"
    by simp
  with ok few run4 shape show ?thesis by simp
qed

end
